theory Spec2Isabelle
  imports Complex_Main "HOL-Library.AList"
begin

section \<open>Conventions of the embedding\<close>

text \<open>
  The Python sources compute with IEEE doubles; the embedding idealises them as
  \<^typ>\<open>real\<close>, so every statement below is about the exact arithmetic the code
  approximates. Wall-clock readings (\<^verbatim>\<open>time.time()\<close>, \<^verbatim>\<open>datetime.now()\<close>)
  are passed to each operation as a parameter \<open>now\<close>, in seconds. Qt signals are
  recorded, in emission order, in a list carried by the state. A Python exception
  is a value: the operation returns \<open>Inl\<close> with the exception and the state as the
  raise left it.
\<close>

datatype py_error = KeyError | TypeError

text \<open>\<^verbatim>\<open>round(x, n)\<close> on exact values: to the nearest multiple of \<open>10^-n\<close>, ties to even.\<close>

definition py_round :: "real \<Rightarrow> nat \<Rightarrow> real" where
  "py_round x n =
     (let y = x * 10 ^ n; f = \<lfloor>y\<rfloor>; r = y - of_int f
      in of_int (if r < 1 / 2 then f
                 else if 1 / 2 < r then f + 1
                 else if even f then f else f + 1) / 10 ^ n)"

text \<open>\<^verbatim>\<open>int(x)\<close> on a float truncates towards zero.\<close>

definition py_int :: "real \<Rightarrow> int" where
  "py_int x = (if 0 \<le> x then \<lfloor>x\<rfloor> else \<lceil>x\<rceil>)"

text \<open>\<^verbatim>\<open>str(i)\<close> of an integer, as the f-strings of the ride ids format it.\<close>

definition digit_char :: "nat \<Rightarrow> char" where
  "digit_char d = ''0123456789'' ! d"

function str_nat :: "nat \<Rightarrow> string" where
  "str_nat n = (if n < 10 then [digit_char n] else str_nat (n div 10) @ [digit_char (n mod 10)])"
  by pat_completeness auto
termination
  by (relation "measure id") auto

declare str_nat.simps [simp del]

definition str_int :: "int \<Rightarrow> string" where
  "str_int i = (if i < 0 then CHR ''-'' # str_nat (nat (- i)) else str_nat (nat i))"

section \<open>Geo engine (gps\_manager.py)\<close>

type_synonym location = "real \<times> real"

text \<open>\<^verbatim>\<open>math.radians\<close>.\<close>

definition radians :: "real \<Rightarrow> real" where
  "radians d = d * pi / 180"

text \<open>The quantity \<^verbatim>\<open>a\<close> of \<^verbatim>\<open>GPSManager.calculate_distance\<close>.\<close>

definition haversine_a :: "real \<Rightarrow> real \<Rightarrow> real \<Rightarrow> real \<Rightarrow> real" where
  "haversine_a lat1 lon1 lat2 lon2 =
     (let la1 = radians lat1; lo1 = radians lon1; la2 = radians lat2; lo2 = radians lon2;
          dlat = la2 - la1; dlon = lo2 - lo1
      in (sin (dlat / 2))\<^sup>2 + cos la1 * cos la2 * (sin (dlon / 2))\<^sup>2)"

text \<open>
  The haversine great-circle formula with Earth radius 6371.0 km, as a reference
  to compare the code with.
\<close>

definition haversine :: "real \<Rightarrow> real \<Rightarrow> real \<Rightarrow> real \<Rightarrow> real" where
  "haversine lat1 lon1 lat2 lon2 = 2 * 6371 * arcsin (sqrt (haversine_a lat1 lon1 lat2 lon2))"

text \<open>
  \<^verbatim>\<open>GPSManager.calculate_distance\<close>. The first test is \<^verbatim>\<open>not all([lat1, lon1, lat2, lon2])\<close>:
  a float is falsy exactly when it is zero. The second is the \<^verbatim>\<open>except Exception\<close>
  around the formula: \<^verbatim>\<open>math.sqrt\<close> raises on a negative argument and \<^verbatim>\<open>math.asin\<close>
  outside \<open>[-1, 1]\<close>, and the handler returns 0.0.
\<close>

definition calculate_distance :: "real \<Rightarrow> real \<Rightarrow> real \<Rightarrow> real \<Rightarrow> real" where
  "calculate_distance lat1 lon1 lat2 lon2 =
     (if lat1 = 0 \<or> lon1 = 0 \<or> lat2 = 0 \<or> lon2 = 0 then 0
      else let a = haversine_a lat1 lon1 lat2 lon2
           in if a < 0 \<or> 1 < sqrt a then 0
              else 2 * 6371 * arcsin (sqrt a))"

text \<open>
  The state of \<^verbatim>\<open>GPSManager\<close> that the fare engine reads. \<^verbatim>\<open>current_location\<close> is
  initialised to a default position and only ever assigned a pair, so \<^verbatim>\<open>get_location\<close>
  never returns \<^verbatim>\<open>None\<close>; callers test it all the same, hence the option.
\<close>

record gps_manager =
  current_location :: location
  previous_location :: "location option"
  current_speed :: real
  total_distance_traveled :: real
  trip_start_time :: "real option"

definition gps_init :: gps_manager where
  "gps_init = \<lparr>current_location = (19.0760, 72.8777), previous_location = None,
     current_speed = 0, total_distance_traveled = 0, trip_start_time = None\<rparr>"

definition get_location :: "gps_manager \<Rightarrow> location option" where
  "get_location g = Some (current_location g)"

definition get_speed :: "gps_manager \<Rightarrow> real" where
  "get_speed g = current_speed g"

definition get_total_distance :: "gps_manager \<Rightarrow> real" where
  "get_total_distance g = total_distance_traveled g"

definition reset_trip :: "real \<Rightarrow> gps_manager \<Rightarrow> gps_manager" where
  "reset_trip now g =
     g\<lparr>total_distance_traveled := 0, trip_start_time := Some now, previous_location := None\<rparr>"

text \<open>
  The two updates of \<^verbatim>\<open>_serial_loop\<close>: a position sentence adds the distance from
  \<^verbatim>\<open>previous_location\<close> to the new position, whatever its size, and then shifts the
  positions; a velocity sentence overwrites the speed.
\<close>

definition location_fix :: "real \<Rightarrow> real \<Rightarrow> gps_manager \<Rightarrow> gps_manager" where
  "location_fix lat lon g =
     (let g1 = (case previous_location g of
                  None \<Rightarrow> g
                | Some (plat, plon) \<Rightarrow>
                    g\<lparr>total_distance_traveled :=
                        total_distance_traveled g + calculate_distance plat plon lat lon\<rparr>)
      in g1\<lparr>previous_location := Some (current_location g), current_location := (lat, lon)\<rparr>)"

definition speed_fix :: "real \<Rightarrow> gps_manager \<Rightarrow> gps_manager" where
  "speed_fix speed g = g\<lparr>current_speed := speed\<rparr>"

section \<open>Fare engine (fare\_calculator.py)\<close>

text \<open>One entry of the \<^verbatim>\<open>passengers\<close> dictionary.\<close>

record passenger =
  onboard :: bool
  fare :: real
  start_location :: "location option"
  last_location :: "location option"
  start_time :: "real option"
  total_distance :: real
  ride_id :: "string option"
  waiting_time :: real

text \<open>
  The \<^verbatim>\<open>ride_data\<close> dictionary of a sharing-mode ride; each field is the key of the
  same name, prefixed with \<open>r_\<close>.
\<close>

record ride_data =
  r_ride_id :: "string option"
  r_passenger_id :: int
  r_start_time :: real
  r_end_time :: real
  r_duration_minutes :: real
  r_total_distance_km :: real
  r_straight_line_distance_km :: real
  r_fare_amount :: real
  r_fare_rate_per_km :: real
  r_waiting_time_minutes :: real
  r_start_location :: "location option"
  r_end_location :: "location option"
  r_average_speed :: real

text \<open>The \<^verbatim>\<open>ride_data\<close> dictionary of a private ride, keys prefixed with \<open>p_\<close>.\<close>

record private_ride_data =
  p_ride_id :: string
  p_start_time :: real
  p_end_time :: real
  p_duration_minutes :: real
  p_calculated_distance_km :: real
  p_gps_total_distance_km :: real
  p_straight_line_distance_km :: real
  p_fare_amount :: real
  p_fare_rate_per_km :: real
  p_waiting_time_minutes :: real
  p_start_location :: "location option"
  p_end_location :: "location option"
  p_average_speed :: real
  p_max_speed :: real

text \<open>The signals of \<^verbatim>\<open>FareCalculator\<close>.\<close>

datatype signal =
    Fare_updated int real
  | Total_fare_updated real
  | Ride_completed int ride_data
  | Distance_updated real
  | Duration_updated int

text \<open>
  \<^verbatim>\<open>FareCalculator\<close>. The dictionary \<^verbatim>\<open>passengers\<close> is an association list in
  insertion order, which is the order \<^verbatim>\<open>items()\<close> iterates in; \<open>emitted\<close> collects the
  signals.
\<close>

record fare_calculator =
  gps :: gps_manager
  fare_rate_per_km :: real
  last_gps_update :: real
  passengers :: "(int \<times> passenger) list"
  private_mode_active :: bool
  private_fare :: real
  private_start_location :: "location option"
  private_last_location :: "location option"
  private_start_time :: "real option"
  private_distance :: real
  private_waiting_time :: real
  emitted :: "signal list"

definition passenger_init :: passenger where
  "passenger_init = \<lparr>onboard = False, fare = 0, start_location = None, last_location = None,
     start_time = None, total_distance = 0, ride_id = None, waiting_time = 0\<rparr>"

definition fare_calculator_init :: "gps_manager \<Rightarrow> real \<Rightarrow> real \<Rightarrow> fare_calculator" where
  "fare_calculator_init g rate now =
     \<lparr>gps = g, fare_rate_per_km = rate, last_gps_update = now,
      passengers = [(0, passenger_init), (1, passenger_init), (2, passenger_init)],
      private_mode_active = False, private_fare = 0, private_start_location = None,
      private_last_location = None, private_start_time = None, private_distance = 0,
      private_waiting_time = 0, emitted = []\<rparr>"

definition minimum_speed_threshold :: real where
  "minimum_speed_threshold = 2"

text \<open>\<^verbatim>\<open>FareCalculator._calculate_distance\<close>: a pair is truthy, \<^verbatim>\<open>None\<close> is not.\<close>

definition fare_calculate_distance :: "location option \<Rightarrow> location option \<Rightarrow> real" where
  "fare_calculate_distance loc1 loc2 =
     (case loc1 of
        None \<Rightarrow> 0
      | Some (lat1, lon1) \<Rightarrow>
          (case loc2 of
             None \<Rightarrow> 0
           | Some (lat2, lon2) \<Rightarrow> calculate_distance lat1 lon1 lat2 lon2))"

text \<open>
  \<^verbatim>\<open>FareCalculator._update_passenger_fare\<close>: the updated entry and the signals emitted.
  The first argument is the attribute \<^verbatim>\<open>fare_rate_per_km\<close> the method reads.
\<close>

definition update_passenger_fare ::
  "real \<Rightarrow> int \<Rightarrow> passenger \<Rightarrow> location \<Rightarrow> real \<Rightarrow> real \<Rightarrow> passenger \<times> signal list" where
  "update_passenger_fare rate pid p cur speed time_delta =
     (if last_location p = None then (p\<lparr>last_location := Some cur\<rparr>, [])
      else
        let distance_moved = fare_calculate_distance (last_location p) (Some cur);
            p1 = (if 0.005 < distance_moved
                  then p\<lparr>fare := fare p + distance_moved * rate,
                         total_distance := total_distance p + distance_moved,
                         last_location := Some cur\<rparr>
                  else p);
            p2 = (if speed < minimum_speed_threshold
                  then p1\<lparr>fare := fare p1 + (time_delta / 60) * 2,
                          waiting_time := waiting_time p1 + time_delta / 60\<rparr>
                  else p1)
        in (p2, [Fare_updated pid (fare p2)]))"

text \<open>The loop over \<^verbatim>\<open>self.passengers.items()\<close> in \<^verbatim>\<open>_calculation_loop\<close>.\<close>

fun update_onboard ::
  "real \<Rightarrow> location \<Rightarrow> real \<Rightarrow> real \<Rightarrow> (int \<times> passenger) list
     \<Rightarrow> (int \<times> passenger) list \<times> signal list" where
  "update_onboard rate cur speed time_delta [] = ([], [])"
| "update_onboard rate cur speed time_delta ((pid, p) # ps) =
     (let (p', sg) = (if onboard p then update_passenger_fare rate pid p cur speed time_delta
                      else (p, []));
          (ps', sgs) = update_onboard rate cur speed time_delta ps
      in ((pid, p') # ps', sg @ sgs))"

text \<open>\<^verbatim>\<open>FareCalculator._update_private_fare\<close>.\<close>

definition update_private_fare ::
  "real \<Rightarrow> location \<Rightarrow> real \<Rightarrow> real \<Rightarrow> fare_calculator \<Rightarrow> fare_calculator" where
  "update_private_fare now cur speed time_delta fc =
     (if private_last_location fc = None then fc\<lparr>private_last_location := Some cur\<rparr>
      else
        let distance_moved = fare_calculate_distance (private_last_location fc) (Some cur);
            fc1 = (if 0.005 < distance_moved
                   then let f = private_fare fc + distance_moved * fare_rate_per_km fc;
                            d = private_distance fc + distance_moved
                        in fc\<lparr>private_fare := f, private_distance := d,
                              private_last_location := Some cur,
                              emitted := emitted fc @ [Total_fare_updated f, Distance_updated d]\<rparr>
                   else fc);
            fc2 = (if speed < minimum_speed_threshold
                   then let f = private_fare fc1 + (time_delta / 60) * 2
                        in fc1\<lparr>private_fare := f,
                               private_waiting_time := private_waiting_time fc1 + time_delta / 60,
                               emitted := emitted fc1 @ [Total_fare_updated f]\<rparr>
                   else fc1)
        in (case private_start_time fc2 of
              None \<Rightarrow> fc2
            | Some st \<Rightarrow>
                fc2\<lparr>emitted := emitted fc2 @ [Duration_updated (py_int ((now - st) / 60))]\<rparr>))"

text \<open>
  One iteration of the body of \<^verbatim>\<open>_calculation_loop\<close>, entered at clock reading \<open>now\<close>.
\<close>

definition calculation_loop_iter :: "real \<Rightarrow> fare_calculator \<Rightarrow> fare_calculator" where
  "calculation_loop_iter now fc =
     (let time_delta = now - last_gps_update fc
      in case get_location (gps fc) of
           None \<Rightarrow> fc
         | Some cur \<Rightarrow>
             if 1 \<le> time_delta then
               let speed = get_speed (gps fc);
                   (ps, sgs) = update_onboard (fare_rate_per_km fc) cur speed time_delta
                                 (passengers fc);
                   fc1 = fc\<lparr>passengers := ps, emitted := emitted fc @ sgs\<rparr>;
                   fc2 = (if private_mode_active fc1
                          then update_private_fare now cur speed time_delta fc1 else fc1)
               in fc2\<lparr>last_gps_update := now\<rparr>
             else fc)"

text \<open>The ride id \<^verbatim>\<open>f"RIDE-{passenger_id+1}-{int(time.time())}"\<close>.\<close>

definition ride_id_of :: "int \<Rightarrow> real \<Rightarrow> string" where
  "ride_id_of passenger_id now =
     ''RIDE-'' @ str_int (passenger_id + 1) @ ''-'' @ str_int (py_int now)"

text \<open>The entry as the boarding branch of \<^verbatim>\<open>handle_passenger_change\<close> leaves it.\<close>

definition board :: "int \<Rightarrow> real \<Rightarrow> location option \<Rightarrow> passenger \<Rightarrow> passenger" where
  "board passenger_id now cur p =
     p\<lparr>onboard := True, fare := 0, start_location := cur, last_location := cur,
       start_time := Some now, total_distance := 0, waiting_time := 0,
       ride_id := Some (ride_id_of passenger_id now)\<rparr>"

text \<open>The \<^verbatim>\<open>ride_data\<close> built by the alighting branch.\<close>

definition ride_data_of ::
  "real \<Rightarrow> int \<Rightarrow> real \<Rightarrow> real \<Rightarrow> location option \<Rightarrow> passenger \<Rightarrow> ride_data" where
  "ride_data_of rate passenger_id st end_time cur p =
     (let duration = (end_time - st) / 60;
          final_distance = (if start_location p \<noteq> None \<and> cur \<noteq> None
                            then fare_calculate_distance (start_location p) cur else 0)
      in \<lparr>r_ride_id = ride_id p,
          r_passenger_id = passenger_id + 1,
          r_start_time = st,
          r_end_time = end_time,
          r_duration_minutes = py_round duration 1,
          r_total_distance_km = py_round (total_distance p) 3,
          r_straight_line_distance_km = py_round final_distance 3,
          r_fare_amount = py_round (fare p) 2,
          r_fare_rate_per_km = rate,
          r_waiting_time_minutes = py_round (waiting_time p) 1,
          r_start_location = start_location p,
          r_end_location = cur,
          r_average_speed =
            py_round (if 0 < duration then total_distance p / (duration / 60) else 0) 1\<rparr>)"

text \<open>The \<^verbatim>\<open>passenger.update({...})\<close> that ends the alighting branch.\<close>

definition reset_passenger :: "passenger \<Rightarrow> passenger" where
  "reset_passenger p =
     p\<lparr>fare := 0, start_location := None, last_location := None, start_time := None,
       total_distance := 0, waiting_time := 0, ride_id := None\<rparr>"

text \<open>
  \<^verbatim>\<open>FareCalculator.handle_passenger_change\<close>. Indexing the dictionary with a key it
  does not hold raises \<^verbatim>\<open>KeyError\<close>; subtracting \<^verbatim>\<open>None\<close> from the end time raises
  \<^verbatim>\<open>TypeError\<close>, after \<^verbatim>\<open>onboard\<close> has been cleared.
\<close>

definition handle_passenger_change ::
  "real \<Rightarrow> int \<Rightarrow> bool \<Rightarrow> fare_calculator
     \<Rightarrow> (py_error \<times> fare_calculator) + fare_calculator" where
  "handle_passenger_change now passenger_id onb fc =
     (if int (length (passengers fc)) \<le> passenger_id then Inr fc
      else
        case map_of (passengers fc) passenger_id of
          None \<Rightarrow> Inl (KeyError, fc)
        | Some p \<Rightarrow>
            let cur = get_location (gps fc)
            in if onb \<and> \<not> onboard p then
                 Inr (fc\<lparr>passengers :=
                            AList.update passenger_id (board passenger_id now cur p)
                              (passengers fc),
                          emitted := emitted fc @ [Fare_updated passenger_id 0]\<rparr>)
               else if \<not> onb \<and> onboard p then
                 let p1 = p\<lparr>onboard := False\<rparr>
                 in (case start_time p1 of
                       None \<Rightarrow>
                         Inl (TypeError,
                              fc\<lparr>passengers := AList.update passenger_id p1 (passengers fc)\<rparr>)
                     | Some st \<Rightarrow>
                         Inr (fc\<lparr>passengers :=
                                    AList.update passenger_id (reset_passenger p1)
                                      (passengers fc),
                                  emitted := emitted fc @
                                    [Ride_completed passenger_id
                                       (ride_data_of (fare_rate_per_km fc) passenger_id st now
                                          cur p1)]\<rparr>))
               else Inr fc)"

text \<open>\<^verbatim>\<open>FareCalculator.start_private_mode\<close>.\<close>

definition start_private_mode :: "real \<Rightarrow> fare_calculator \<Rightarrow> fare_calculator" where
  "start_private_mode now fc =
     fc\<lparr>private_mode_active := True, private_fare := 0,
        private_start_location := get_location (gps fc),
        private_last_location := get_location (gps fc),
        private_start_time := Some now, private_distance := 0, private_waiting_time := 0,
        gps := reset_trip now (gps fc),
        emitted := emitted fc @ [Total_fare_updated 0, Distance_updated 0, Duration_updated 0]\<rparr>"

text \<open>The \<^verbatim>\<open>ride_data\<close> that \<^verbatim>\<open>stop_private_mode\<close> returns.\<close>

definition private_ride_data_of :: "real \<Rightarrow> real \<Rightarrow> fare_calculator \<Rightarrow> private_ride_data" where
  "private_ride_data_of st end_time fc =
     (let duration = (end_time - st) / 60;
          cur = get_location (gps fc);
          gps_total_distance = get_total_distance (gps fc);
          straight_line_distance =
            (if private_start_location fc \<noteq> None \<and> cur \<noteq> None
             then fare_calculate_distance (private_start_location fc) cur else 0)
      in \<lparr>p_ride_id = ''PRIVATE-'' @ str_int (py_int end_time),
          p_start_time = st,
          p_end_time = end_time,
          p_duration_minutes = py_round duration 1,
          p_calculated_distance_km = py_round (private_distance fc) 3,
          p_gps_total_distance_km = py_round gps_total_distance 3,
          p_straight_line_distance_km = py_round straight_line_distance 3,
          p_fare_amount = py_round (private_fare fc) 2,
          p_fare_rate_per_km = fare_rate_per_km fc,
          p_waiting_time_minutes = py_round (private_waiting_time fc) 1,
          p_start_location = private_start_location fc,
          p_end_location = cur,
          p_average_speed =
            py_round (if 0 < duration then gps_total_distance / (duration / 60) else 0) 1,
          p_max_speed = py_round (max 0 (get_speed (gps fc))) 1\<rparr>)"

text \<open>
  \<^verbatim>\<open>FareCalculator.stop_private_mode\<close>: the value returned (\<^verbatim>\<open>None\<close> or the ride data)
  and the state. It emits no signal.
\<close>

definition stop_private_mode ::
  "real \<Rightarrow> fare_calculator
     \<Rightarrow> (py_error \<times> fare_calculator) + (private_ride_data option \<times> fare_calculator)" where
  "stop_private_mode now fc =
     (if private_mode_active fc then
        let fc1 = fc\<lparr>private_mode_active := False\<rparr>
        in (case private_start_time fc1 of
              None \<Rightarrow> Inl (TypeError, fc1)
            | Some st \<Rightarrow> Inr (Some (private_ride_data_of st now fc1), fc1))
      else Inr (None, fc))"

text \<open>\<^verbatim>\<open>FareCalculator.set_fare_rate\<close>.\<close>

definition set_fare_rate :: "real \<Rightarrow> fare_calculator \<Rightarrow> fare_calculator" where
  "set_fare_rate rate fc = fc\<lparr>fare_rate_per_km := rate\<rparr>"

subsection \<open>Runs of the fare engine\<close>

text \<open>
  The engine is driven from several threads, serialised by its lock: the calculation
  loop, the passenger switches, the mode switch, and the position source. A run is a
  sequence of these atomic steps; it stops at the first exception.
\<close>

datatype action =
    Tick real
  | Location_fix real real
  | Speed_fix real
  | Set_fare_rate real
  | Passenger_change real int bool
  | Start_private real
  | Stop_private real

fun step :: "action \<Rightarrow> fare_calculator \<Rightarrow> (py_error \<times> fare_calculator) + fare_calculator" where
  "step (Tick now) fc = Inr (calculation_loop_iter now fc)"
| "step (Location_fix lat lon) fc = Inr (fc\<lparr>gps := location_fix lat lon (gps fc)\<rparr>)"
| "step (Speed_fix v) fc = Inr (fc\<lparr>gps := speed_fix v (gps fc)\<rparr>)"
| "step (Set_fare_rate r) fc = Inr (set_fare_rate r fc)"
| "step (Passenger_change now i onb) fc = handle_passenger_change now i onb fc"
| "step (Start_private now) fc = Inr (start_private_mode now fc)"
| "step (Stop_private now) fc =
     (case stop_private_mode now fc of Inl e \<Rightarrow> Inl e | Inr (_, fc') \<Rightarrow> Inr fc')"

fun run :: "action list \<Rightarrow> fare_calculator \<Rightarrow> (py_error \<times> fare_calculator) + fare_calculator" where
  "run [] fc = Inr fc"
| "run (a # as) fc = (case step a fc of Inl e \<Rightarrow> Inl e | Inr fc' \<Rightarrow> run as fc')"

text \<open>
  What every state reachable from the initial one satisfies: the dictionary holds the
  three slots, and a leg that is under way has its start time.
\<close>

definition well_formed :: "fare_calculator \<Rightarrow> bool" where
  "well_formed fc \<longleftrightarrow>
     map fst (passengers fc) = [0, 1, 2] \<and>
     list_all (\<lambda>(i, p). onboard p \<longrightarrow> start_time p \<noteq> None) (passengers fc) \<and>
     (private_mode_active fc \<longrightarrow> private_start_time fc \<noteq> None)"

text \<open>The events a passenger switch can send: slots 0, 1 and 2.\<close>

fun switch_events :: "action list \<Rightarrow> bool" where
  "switch_events [] = True"
| "switch_events (Passenger_change now i onb # as) = (0 \<le> i \<and> i < 3 \<and> switch_events as)"
| "switch_events (a # as) = switch_events as"

text \<open>No event of slot \<open>pid\<close> among the actions.\<close>

fun undisturbed :: "int \<Rightarrow> action list \<Rightarrow> bool" where
  "undisturbed pid [] = True"
| "undisturbed pid (Passenger_change now i onb # as) = (i \<noteq> pid \<and> undisturbed pid as)"
| "undisturbed pid (a # as) = undisturbed pid as"

text \<open>No start or stop of private mode among the actions.\<close>

fun no_private_events :: "action list \<Rightarrow> bool" where
  "no_private_events [] = True"
| "no_private_events (Start_private now # as) = False"
| "no_private_events (Stop_private now # as) = False"
| "no_private_events (a # as) = no_private_events as"

subsection \<open>The charges of a tick, as the specification words them\<close>

text \<open>
  The distance charge of a tick: \<open>moved * rate_per_km\<close> when the slot moved more than
  5 m from its last location.
\<close>

definition distance_charge :: "real \<Rightarrow> location option \<Rightarrow> location \<Rightarrow> real" where
  "distance_charge rate last_loc cur =
     (let moved = fare_calculate_distance last_loc (Some cur)
      in if 0.005 < moved then moved * rate else 0)"

text \<open>
  The waiting charge of a tick: \<open>(tick_seconds / 60) * waiting_rate_per_minute\<close>, at
  2.0 per minute, when the speed is below 2.0 km/h.
\<close>

definition waiting_charge :: "real \<Rightarrow> real \<Rightarrow> real" where
  "waiting_charge speed tick_seconds = (if speed < 2 then (tick_seconds / 60) * 2 else 0)"

text \<open>
  The charges slot \<open>pid\<close> incurs in one step from state \<open>fc\<close>: one charge for a
  calculation tick that fires while the slot is onboard with a last location, none
  otherwise.
\<close>

definition step_charges :: "int \<Rightarrow> action \<Rightarrow> fare_calculator \<Rightarrow> real list" where
  "step_charges pid a fc =
     (case a of
        Tick now \<Rightarrow>
          (case map_of (passengers fc) pid of
             None \<Rightarrow> []
           | Some p \<Rightarrow>
               if 1 \<le> now - last_gps_update fc \<and> onboard p \<and> last_location p \<noteq> None
               then [distance_charge (fare_rate_per_km fc) (last_location p)
                       (current_location (gps fc))
                     + waiting_charge (current_speed (gps fc)) (now - last_gps_update fc)]
               else [])
      | _ \<Rightarrow> [])"

fun run_charges :: "int \<Rightarrow> action list \<Rightarrow> fare_calculator \<Rightarrow> real list" where
  "run_charges pid [] fc = []"
| "run_charges pid (a # as) fc =
     (case step a fc of
        Inl e \<Rightarrow> []
      | Inr fc' \<Rightarrow> step_charges pid a fc @ run_charges pid as fc')"

text \<open>The number of ride-completed records of slot \<open>pid\<close> among the signals.\<close>

fun is_ride_completed :: "int \<Rightarrow> signal \<Rightarrow> bool" where
  "is_ride_completed pid (Ride_completed i rd) = (i = pid)"
| "is_ride_completed pid _ = False"

definition rides_completed :: "int \<Rightarrow> signal list \<Rightarrow> nat" where
  "rides_completed pid sigs = length (filter (is_ride_completed pid) sigs)"

text \<open>Successive samples applied to one onboard slot, and the distances it shows.\<close>

fun apply_samples ::
  "int \<Rightarrow> passenger \<Rightarrow> (real \<times> location \<times> real \<times> real) list \<Rightarrow> passenger" where
  "apply_samples pid p [] = p"
| "apply_samples pid p ((rate, cur, speed, time_delta) # ss) =
     apply_samples pid (fst (update_passenger_fare rate pid p cur speed time_delta)) ss"

fun distance_trace ::
  "int \<Rightarrow> passenger \<Rightarrow> (real \<times> location \<times> real \<times> real) list \<Rightarrow> real list" where
  "distance_trace pid p [] = [total_distance p]"
| "distance_trace pid p ((rate, cur, speed, time_delta) # ss) =
     total_distance p #
     distance_trace pid (fst (update_passenger_fare rate pid p cur speed time_delta)) ss"

section \<open>SOS state machine (sos\_system.py)\<close>

text \<open>
  The status messages of \<^verbatim>\<open>sos_status_changed\<close>, in source order of appearance:
  \<^verbatim>\<open>"SOS Cancelled - Normal"\<close>, \<^verbatim>\<open>f"SOS COUNTDOWN: {i} seconds"\<close>, the activation
  banner and the deactivation message.
\<close>

datatype sos_status =
    Cancelled_status
  | Countdown_status int
  | Activated_status
  | Deactivated_status

text \<open>
  The \<^verbatim>\<open>sos_data\<close> dictionary (the \<^verbatim>\<open>timestamp\<close> key repeats the activation time as
  text). \<^verbatim>\<open>SOSSystem\<close> is never given a \<^verbatim>\<open>gps_manager\<close> attribute, so the
  \<^verbatim>\<open>hasattr\<close> test fails and the location stays \<^verbatim>\<open>None\<close>.
\<close>

record sos_data =
  d_activation_time :: real
  d_location :: "location option"
  d_status :: string
  d_type :: string

datatype sos_signal =
    Sos_status_changed sos_status
  | Sos_activated sos_data
  | Sos_deactivated

text \<open>
  \<^verbatim>\<open>SOSSystem\<close>. A countdown thread is the list of values its \<^verbatim>\<open>for\<close> loop has still
  to take; \<open>countdown_threads\<close> holds the threads that have not returned.
\<close>

record sos_system =
  sos_active :: bool
  countdown_active :: bool
  current_countdown :: int
  countdown_threads :: "int list list"
  sos_emitted :: "sos_signal list"

definition sos_init :: sos_system where
  "sos_init = \<lparr>sos_active = False, countdown_active = False, current_countdown = 0,
     countdown_threads = [], sos_emitted = []\<rparr>"

text \<open>\<^verbatim>\<open>SOSSystem.activate_sos\<close>.\<close>

definition activate_sos :: "real \<Rightarrow> sos_system \<Rightarrow> sos_system" where
  "activate_sos now s =
     s\<lparr>sos_active := True,
       sos_emitted := sos_emitted s @
         [Sos_status_changed Activated_status,
          Sos_activated \<lparr>d_activation_time = now, d_location = None, d_status = ''ACTIVE'',
                          d_type = ''MANUAL_ACTIVATION''\<rparr>]\<rparr>"

text \<open>\<^verbatim>\<open>SOSSystem.deactivate_sos\<close>.\<close>

definition deactivate_sos :: "sos_system \<Rightarrow> sos_system" where
  "deactivate_sos s =
     (if sos_active s
      then s\<lparr>sos_active := False,
             sos_emitted := sos_emitted s @
               [Sos_status_changed Deactivated_status, Sos_deactivated]\<rparr>
      else s)"

text \<open>\<^verbatim>\<open>SOSSystem.handle_sos_button_press\<close>: a new thread runs \<^verbatim>\<open>range(5, 0, -1)\<close>.\<close>

definition handle_sos_button_press :: "sos_system \<Rightarrow> sos_system" where
  "handle_sos_button_press s =
     (if \<not> countdown_active s \<and> \<not> sos_active s
      then s\<lparr>countdown_active := True,
             countdown_threads := countdown_threads s @ [[5, 4, 3, 2, 1]]\<rparr>
      else s)"

text \<open>\<^verbatim>\<open>SOSSystem.handle_sos_button_release\<close>.\<close>

definition handle_sos_button_release :: "sos_system \<Rightarrow> sos_system" where
  "handle_sos_button_release s =
     (if countdown_active s
      then s\<lparr>countdown_active := False,
             sos_emitted := sos_emitted s @ [Sos_status_changed Cancelled_status]\<rparr>
      else if sos_active s then deactivate_sos s
      else s)"

text \<open>
  One step of a thread running \<^verbatim>\<open>_countdown_loop\<close>, from one \<^verbatim>\<open>time.sleep(1)\<close> to the
  next: an iteration of the loop while values remain, the code after the loop once
  they are used up. The result is what remains of the thread (\<open>None\<close> once it has
  returned) and the state.
\<close>

fun countdown_loop_step :: "real \<Rightarrow> int list \<Rightarrow> sos_system \<Rightarrow> int list option \<times> sos_system" where
  "countdown_loop_step now (i # rest) s =
     (if \<not> countdown_active s then (None, s)
      else (Some rest,
            s\<lparr>current_countdown := i,
              sos_emitted := sos_emitted s @ [Sos_status_changed (Countdown_status i)]\<rparr>))"
| "countdown_loop_step now [] s =
     (None, if countdown_active s then (activate_sos now s)\<lparr>countdown_active := False\<rparr> else s)"

text \<open>
  What can happen to the SOS system: the two button signals, a step of the \<open>k\<close>-th
  live countdown thread at clock reading \<open>now\<close>, and a deactivation from outside.
\<close>

datatype sos_event =
    Button_press
  | Button_release
  | Countdown_step nat real
  | External_deactivate

fun sos_step :: "sos_event \<Rightarrow> sos_system \<Rightarrow> sos_system" where
  "sos_step Button_press s = handle_sos_button_press s"
| "sos_step Button_release s = handle_sos_button_release s"
| "sos_step External_deactivate s = deactivate_sos s"
| "sos_step (Countdown_step k now) s =
     (if k < length (countdown_threads s) then
        (case countdown_loop_step now (countdown_threads s ! k) s of
           (None, s') \<Rightarrow>
             s'\<lparr>countdown_threads := take k (countdown_threads s) @ drop (Suc k) (countdown_threads s)\<rparr>
         | (Some rest, s') \<Rightarrow>
             s'\<lparr>countdown_threads := (countdown_threads s)[k := rest]\<rparr>)
      else s)"

fun sos_run :: "sos_event list \<Rightarrow> sos_system \<Rightarrow> sos_system" where
  "sos_run [] s = s"
| "sos_run (e # es) s = sos_run es (sos_step e s)"

text \<open>
  What every state reachable from the initial one satisfies: a countdown thread has at
  most the five values of its range still to take.
\<close>

definition sos_well_formed :: "sos_system \<Rightarrow> bool" where
  "sos_well_formed s \<longleftrightarrow> list_all (\<lambda>pc. length pc \<le> 5) (countdown_threads s)"

text \<open>
  Events that are steps of countdown threads or further presses, and the number of
  steps among them taken by the oldest live thread.
\<close>

fun held :: "sos_event list \<Rightarrow> bool" where
  "held [] = True"
| "held (Button_press # es) = held es"
| "held (Countdown_step k now # es) = held es"
| "held (e # es) = False"

fun thread_steps :: "sos_event list \<Rightarrow> nat" where
  "thread_steps [] = 0"
| "thread_steps (Countdown_step k now # es) = (if k = 0 then Suc (thread_steps es) else thread_steps es)"
| "thread_steps (e # es) = thread_steps es"


section \<open>Digital input sampler (gpio\_manager.py)\<close>

definition HIGH :: int where
  "HIGH = 1"

definition LOW :: int where
  "LOW = 0"

definition PINS :: "(string \<times> int) list" where
  "PINS =
     [(''sos_buzzer'', 26), (''sos_button'', 12), (''sos_led'', 21),
      (''passenger_1'', 6), (''passenger_2'', 13), (''passenger_3'', 19),
      (''mode_private'', 7), (''mode_sharing'', 8), (''mode_waiting'', 18),
      (''mode_for_hire'', 23),
      (''mpu_scl'', 3), (''mpu_sda'', 2), (''mpu_int'', 4)]"

definition MODES :: "(string \<times> string) list" where
  "MODES =
     [(''mode_private'', ''Private''), (''mode_sharing'', ''Sharing''),
      (''mode_waiting'', ''Waiting''), (''mode_for_hire'', ''For Hire'')]"

datatype gpio_signal =
    Passenger_changed int bool
  | Sos_button_pressed
  | Sos_button_released
  | Mode_switch_changed string

text \<open>
  \<^verbatim>\<open>GPIOManager\<close>: its attributes \<^verbatim>\<open>current_mode\<close> and \<^verbatim>\<open>sos_active\<close> (prefixed, as
  other classes have attributes of the same names), the levels last written to the
  buzzer and LED pins, the number of alarm-pattern threads started, and the signals.
\<close>

record gpio_manager =
  gpio_current_mode :: string
  gpio_sos_active :: bool
  sos_buzzer :: int
  sos_led :: int
  pattern_threads_started :: nat
  gpio_emitted :: "gpio_signal list"

definition gpio_init :: gpio_manager where
  "gpio_init = \<lparr>gpio_current_mode = ''For Hire'', gpio_sos_active = False, sos_buzzer = LOW,
     sos_led = LOW, pattern_threads_started = 0, gpio_emitted = []\<rparr>"

text \<open>
  The \<^verbatim>\<open>for\<close> loop of \<^verbatim>\<open>_monitor_mode_switch\<close> over \<^verbatim>\<open>self.MODES.items()\<close>, with its
  \<^verbatim>\<open>break\<close>; \<open>inp\<close> is \<^verbatim>\<open>GPIO.input\<close>, from pin number to level.
\<close>

fun scan_modes :: "(int \<Rightarrow> int) \<Rightarrow> (string \<times> string) list \<Rightarrow> py_error + string option" where
  "scan_modes inp [] = Inr None"
| "scan_modes inp ((mode_key, mode_name) # rest) =
     (case map_of PINS mode_key of
        None \<Rightarrow> Inl KeyError
      | Some pin \<Rightarrow> if inp pin = LOW then Inr (Some mode_name) else scan_modes inp rest)"

text \<open>The value of \<^verbatim>\<open>selected_mode\<close> that one pass of \<^verbatim>\<open>_monitor_mode_switch\<close> settles on.\<close>

definition selected_mode :: "(int \<Rightarrow> int) \<Rightarrow> py_error + string" where
  "selected_mode inp =
     (case scan_modes inp MODES of
        Inl e \<Rightarrow> Inl e
      | Inr None \<Rightarrow> Inr ''For Hire''
      | Inr (Some mode_name) \<Rightarrow> Inr mode_name)"

text \<open>
  One pass of the body of \<^verbatim>\<open>_monitor_mode_switch\<close>; an exception is caught and printed
  by the loop, leaving the state as it was.
\<close>

definition monitor_mode_switch_iter :: "(int \<Rightarrow> int) \<Rightarrow> gpio_manager \<Rightarrow> gpio_manager" where
  "monitor_mode_switch_iter inp g =
     (case selected_mode inp of
        Inl e \<Rightarrow> g
      | Inr m \<Rightarrow>
          if m \<noteq> gpio_current_mode g
          then g\<lparr>gpio_current_mode := m, gpio_emitted := gpio_emitted g @ [Mode_switch_changed m]\<rparr>
          else g)"











section \<open>Mode coordinator (mode\_controller.py)\<close>

text \<open>
  \<^verbatim>\<open>ModeController\<close>: its \<^verbatim>\<open>current_mode\<close> and the \<^verbatim>\<open>mode_changed\<close> signals it emitted.
\<close>

record mode_controller =
  mc_current_mode :: string
  mc_emitted :: "string list"

definition mode_controller_init :: mode_controller where
  "mode_controller_init = \<lparr>mc_current_mode = ''For Hire'', mc_emitted = []\<rparr>"

text \<open>The keys of \<^verbatim>\<open>ModeController.MODES\<close>.\<close>

definition mode_names :: "string list" where
  "mode_names = [''For Hire'', ''Private'', ''Sharing'', ''Waiting'']"

text \<open>\<^verbatim>\<open>ModeController.handle_mode_change\<close>.\<close>

definition handle_mode_change :: "string \<Rightarrow> mode_controller \<Rightarrow> mode_controller" where
  "handle_mode_change mode_name mc =
     (if mode_name \<in> set mode_names \<and> mode_name \<noteq> mc_current_mode mc
      then mc\<lparr>mc_current_mode := mode_name, mc_emitted := mc_emitted mc @ [mode_name]\<rparr>
      else mc)"

section \<open>Display (ui\_manager.py)\<close>

text \<open>
  \<^verbatim>\<open>RickyUI.update_mode\<close>, the slot that starts and stops the private leg: the state is
  the attribute \<^verbatim>\<open>current_mode\<close> of the display and the fare engine it drives. The
  assignment to \<^verbatim>\<open>current_mode\<close> comes first, as in the source, and the tests that
  follow read the attribute after it.
\<close>

definition update_mode ::
  "real \<Rightarrow> string \<Rightarrow> string \<times> fare_calculator
     \<Rightarrow> (py_error \<times> string \<times> fare_calculator) + (string \<times> fare_calculator)" where
  "update_mode now mode ui =
     (let current_mode = mode; fc = snd ui
      in if mode \<in> set [''Sharing'', ''Private'', ''For Hire'', ''Waiting''] then
           (if mode = ''Private'' then Inr (current_mode, start_private_mode now fc)
            else if current_mode = ''Private'' \<and> mode \<noteq> ''Private'' then
              (case stop_private_mode now fc of
                 Inl (e, fc') \<Rightarrow> Inl (e, current_mode, fc')
               | Inr (rd, fc') \<Rightarrow> Inr (current_mode, fc'))
            else Inr (current_mode, fc))
         else Inr (current_mode, fc))"

section \<open>Facts about the distance function\<close>

lemma haversine_a_bounds:
  "0 \<le> haversine_a lat1 lon1 lat2 lon2 \<and> haversine_a lat1 lon1 lat2 lon2 \<le> 1"
proof -
  define x where "x = radians lat1"
  define y where "y = radians lat2"
  define u where "u = (y - x) / 2"
  define s where "s = (sin ((radians lon2 - radians lon1) / 2))\<^sup>2"
  define c where "c = cos x * cos y"
  have a: "haversine_a lat1 lon1 lat2 lon2 = (sin u)\<^sup>2 + c * s"
    by (simp add: haversine_a_def Let_def x_def y_def u_def s_def c_def)
  have s0: "0 \<le> s" by (simp add: s_def)
  have s1: "s \<le> 1" unfolding s_def by (simp add: abs_square_le_1 abs_sin_le_one)
  have "y - x = 2 * u" by (simp add: u_def)
  then have d: "cos (y - x) = 1 - 2 * (sin u)\<^sup>2"
    by (simp only: cos_double_sin)
  have "c = (cos (x - y) + cos (x + y)) / 2"
    by (simp add: c_def cos_times_cos)
  moreover have "cos (x - y) = cos (y - x)"
    by (metis cos_minus minus_diff_eq)
  ultimately have c: "2 * c = 1 - 2 * (sin u)\<^sup>2 + cos (x + y)"
    using d by simp
  have cxy: "- 1 \<le> cos (x + y)" "cos (x + y) \<le> 1" by simp_all
  have su: "(sin u)\<^sup>2 \<le> 1" by (simp add: abs_square_le_1 abs_sin_le_one)
  have lo: "- (sin u)\<^sup>2 \<le> c" using c cxy by linarith
  have hi: "c \<le> 1 - (sin u)\<^sup>2" using c cxy by linarith
  have "- (sin u)\<^sup>2 * s \<le> c * s" using lo s0 by (rule mult_right_mono)
  moreover have "(sin u)\<^sup>2 * s \<le> (sin u)\<^sup>2 * 1"
    using s1 by (intro mult_left_mono) simp_all
  ultimately have ge: "0 \<le> (sin u)\<^sup>2 + c * s" by simp
  have "c * s \<le> (1 - (sin u)\<^sup>2) * s" using hi s0 by (rule mult_right_mono)
  moreover have "(1 - (sin u)\<^sup>2) * s \<le> (1 - (sin u)\<^sup>2) * 1"
    using s1 su by (intro mult_left_mono) simp_all
  ultimately have le: "(sin u)\<^sup>2 + c * s \<le> 1" by simp
  show ?thesis using a ge le by simp
qed

lemma calculate_distance_zero_component:
  "lat1 = 0 \<or> lon1 = 0 \<or> lat2 = 0 \<or> lon2 = 0 \<Longrightarrow> calculate_distance lat1 lon1 lat2 lon2 = 0"
  by (simp add: calculate_distance_def)

lemma calculate_distance_haversine:
  assumes "lat1 \<noteq> 0" "lon1 \<noteq> 0" "lat2 \<noteq> 0" "lon2 \<noteq> 0"
  shows "calculate_distance lat1 lon1 lat2 lon2 = haversine lat1 lon1 lat2 lon2"
proof -
  have b: "0 \<le> haversine_a lat1 lon1 lat2 lon2" "haversine_a lat1 lon1 lat2 lon2 \<le> 1"
    using haversine_a_bounds by simp_all
  then have "sqrt (haversine_a lat1 lon1 lat2 lon2) \<le> 1" by simp
  with b assms show ?thesis
    by (simp add: calculate_distance_def haversine_def Let_def not_less)
qed

lemma calculate_distance_cases:
  "calculate_distance lat1 lon1 lat2 lon2 = 0 \<or>
   calculate_distance lat1 lon1 lat2 lon2 = haversine lat1 lon1 lat2 lon2"
  by (simp add: calculate_distance_def haversine_def Let_def)

lemma haversine_a_same: "haversine_a lat lon lat lon = 0"
  by (simp add: haversine_a_def)

lemma haversine_a_sym: "haversine_a lat1 lon1 lat2 lon2 = haversine_a lat2 lon2 lat1 lon1"
proof -
  have e: "(sin ((a - b) / 2))\<^sup>2 = (sin ((b - a) / 2))\<^sup>2" for a b :: real
  proof -
    have "(a - b) / 2 = - ((b - a) / 2)" by (simp add: field_simps)
    then have "sin ((a - b) / 2) = - sin ((b - a) / 2)" by (simp only: sin_minus)
    then show ?thesis by simp
  qed
  show ?thesis
    by (simp add: haversine_a_def Let_def e [of "radians lat1" "radians lat2"]
        e [of "radians lon1" "radians lon2"] mult.commute)
qed

lemma calculate_distance_same: "calculate_distance lat lon lat lon = 0"
  by (simp add: calculate_distance_def haversine_a_same)

lemma calculate_distance_sym:
  "calculate_distance lat1 lon1 lat2 lon2 = calculate_distance lat2 lon2 lat1 lon1"
proof -
  have "haversine_a lat1 lon1 lat2 lon2 = haversine_a lat2 lon2 lat1 lon1"
    by (rule haversine_a_sym)
  then show ?thesis
    by (auto simp add: calculate_distance_def Let_def)
qed

text \<open>
  Along a meridian the formula has a closed form, which gives concrete inputs on
  both sides of the 5 m noise floor without numerical approximation.
\<close>

lemma haversine_meridian:
  assumes "\<bar>lat2 - lat1\<bar> \<le> 180"
  shows "haversine lat1 lon lat2 lon = 6371 * (\<bar>lat2 - lat1\<bar> * pi / 180)"
proof -
  define u where "u = (radians lat2 - radians lat1) / 2"
  have u: "u = (lat2 - lat1) * pi / 360"
    by (simp add: u_def radians_def field_simps)
  have "\<bar>(lat2 - lat1) * pi\<bar> \<le> 180 * pi"
    using assms by (simp add: abs_mult)
  then have au: "\<bar>u\<bar> \<le> pi / 2" by (simp add: u)
  have a: "haversine_a lat1 lon lat2 lon = (sin u)\<^sup>2"
    by (simp add: haversine_a_def Let_def u_def)
  have "\<bar>sin u\<bar> = sin \<bar>u\<bar>"
  proof (cases "0 \<le> u")
    case True
    then have "0 \<le> sin u" using au by (intro sin_ge_zero) simp_all
    with True show ?thesis by simp
  next
    case False
    then have "0 \<le> sin (- u)" using au by (intro sin_ge_zero) simp_all
    with False show ?thesis by simp
  qed
  then have "arcsin (sqrt ((sin u)\<^sup>2)) = arcsin (sin \<bar>u\<bar>)" by simp
  also have "\<dots> = \<bar>u\<bar>" using au by (intro arcsin_sin) simp_all
  finally have "haversine lat1 lon lat2 lon = 2 * 6371 * \<bar>u\<bar>"
    by (simp add: haversine_def a)
  also have "\<bar>u\<bar> = \<bar>lat2 - lat1\<bar> * pi / 360" by (simp add: u abs_mult)
  finally show ?thesis by simp
qed

lemma calculate_distance_meridian:
  assumes "lat1 \<noteq> 0" "lon \<noteq> 0" "lat2 \<noteq> 0" "\<bar>lat2 - lat1\<bar> \<le> 180"
  shows "calculate_distance lat1 lon lat2 lon = 6371 * (\<bar>lat2 - lat1\<bar> * pi / 180)"
  using assms by (simp add: calculate_distance_haversine haversine_meridian)

section \<open>Facts about the fare engine\<close>

subsection \<open>One tick of one slot\<close>

lemma fare_calculate_distance_cases:
  "fare_calculate_distance (Some (lat1, lon1)) (Some (lat2, lon2)) = 0 \<or>
   fare_calculate_distance (Some (lat1, lon1)) (Some (lat2, lon2)) = haversine lat1 lon1 lat2 lon2"
  using calculate_distance_cases [of lat1 lon1 lat2 lon2]
  by (simp add: fare_calculate_distance_def)

lemma update_passenger_fare_no_last:
  "last_location p = None \<Longrightarrow>
   update_passenger_fare rate pid p cur speed dt = (p\<lparr>last_location := Some cur\<rparr>, [])"
  by (simp add: update_passenger_fare_def)

lemma update_passenger_fare_fields:
  fixes rate speed dt :: real and pid :: int and cur l :: location and p :: passenger
  assumes "last_location p = Some l"
  defines "p' \<equiv> fst (update_passenger_fare rate pid p cur speed dt)"
  defines "moved \<equiv> fare_calculate_distance (Some l) (Some cur)"
  shows "fare p' = fare p + distance_charge rate (Some l) cur + waiting_charge speed dt"
    and "total_distance p' = total_distance p + (if 0.005 < moved then moved else 0)"
    and "last_location p' = (if 0.005 < moved then Some cur else Some l)"
    and "waiting_time p' = waiting_time p + (if speed < 2 then dt / 60 else 0)"
    and "onboard p' = onboard p" and "start_time p' = start_time p"
    and "start_location p' = start_location p" and "ride_id p' = ride_id p"
  using assms(1) unfolding p'_def moved_def
  by (simp_all add: update_passenger_fare_def Let_def distance_charge_def waiting_charge_def
      minimum_speed_threshold_def)

lemma update_passenger_fare_frame:
  fixes rate speed dt :: real and pid :: int and cur :: location and p :: passenger
  defines "p' \<equiv> fst (update_passenger_fare rate pid p cur speed dt)"
  shows "onboard p' = onboard p" and "start_time p' = start_time p"
    and "start_location p' = start_location p" and "ride_id p' = ride_id p"
    and "last_location p' \<noteq> None"
  unfolding p'_def
  by (simp_all add: update_passenger_fare_def Let_def)

lemma update_passenger_fare_distance_mono:
  "total_distance p \<le> total_distance (fst (update_passenger_fare rate pid p cur speed dt))"
  by (simp add: update_passenger_fare_def Let_def)

lemma distance_trace_lower_bound:
  "\<forall>d \<in> set (distance_trace pid p ss). total_distance p \<le> d"
proof (induction ss arbitrary: p)
  case Nil
  show ?case by simp
next
  case (Cons s ss)
  obtain rate cur speed dt where s: "s = (rate, cur, speed, dt)"
    by (cases s) auto
  let ?p' = "fst (update_passenger_fare rate pid p cur speed dt)"
  have "total_distance p \<le> total_distance ?p'"
    by (rule update_passenger_fare_distance_mono)
  moreover have "\<forall>d \<in> set (distance_trace pid ?p' ss). total_distance ?p' \<le> d"
    by (rule Cons.IH)
  ultimately show ?case
    by (auto simp add: s)
qed

lemma distance_trace_sorted: "sorted (distance_trace pid p ss)"
proof (induction ss arbitrary: p)
  case Nil
  show ?case by simp
next
  case (Cons s ss)
  obtain rate cur speed dt where s: "s = (rate, cur, speed, dt)"
    by (cases s) auto
  let ?p' = "fst (update_passenger_fare rate pid p cur speed dt)"
  have "\<forall>d \<in> set (distance_trace pid ?p' ss). total_distance p \<le> d"
    using distance_trace_lower_bound [of pid ?p' ss]
      update_passenger_fare_distance_mono [of p rate pid cur speed dt]
    by force
  with Cons.IH [of ?p'] show ?case
    by (simp add: s)
qed

lemma meridian_step_above_floor:
  "calculate_distance 19.0760 72.8777 19.0800 72.8777 = 6371 * (0.004 * pi / 180) \<and>
   0.005 < calculate_distance 19.0760 72.8777 19.0800 72.8777"
proof -
  have e: "calculate_distance 19.0760 72.8777 19.0800 72.8777 = 6371 * (0.004 * pi / 180)"
    using calculate_distance_meridian [of "19.0760" "72.8777" "19.0800"] by simp
  have "0.005 < 6371 * (0.004 * 2 / 180 :: real)" by simp
  also have "\<dots> \<le> 6371 * (0.004 * pi / 180)" using pi_ge_two by simp
  finally show ?thesis using e by simp
qed

lemma meridian_step_below_floor:
  "haversine 19.0800 72.8777 19.08001 72.8777 = 6371 * (0.00001 * pi / 180) \<and>
   haversine 19.0800 72.8777 19.08001 72.8777 \<le> 0.005"
proof -
  have e: "haversine 19.0800 72.8777 19.08001 72.8777 = 6371 * (0.00001 * pi / 180)"
    using haversine_meridian [of "19.08001" "19.0800" "72.8777"] by simp
  have "6371 * (0.00001 * pi / 180) < 6371 * (0.00001 * 4 / 180 :: real)"
    using pi_less_4 by simp
  also have "\<dots> \<le> 0.005" by simp
  finally show ?thesis using e by simp
qed

text \<open>
  C2. Over any sequence of samples applied to a slot, the accumulated distance never
  decreases; it grows on a tick only if the slot has a last location and the
  haversine distance from it to the sample exceeds 0.005 km; and a sample within
  0.005 km of the last location leaves the distance and the last location as they
  were.
\<close>

theorem accumulated_distance_monotone:
  "sorted (distance_trace pid p samples) \<and>
   (total_distance p < total_distance (fst (update_passenger_fare rate pid p cur speed dt)) \<longrightarrow>
      (\<exists>lat lon. last_location p = Some (lat, lon) \<and>
         0.005 < haversine lat lon (fst cur) (snd cur))) \<and>
   (\<forall>lat lon. last_location p = Some (lat, lon) \<and>
        haversine lat lon (fst cur) (snd cur) \<le> 0.005 \<longrightarrow>
      total_distance (fst (update_passenger_fare rate pid p cur speed dt)) = total_distance p \<and>
      last_location (fst (update_passenger_fare rate pid p cur speed dt)) = last_location p)"
proof (intro conjI impI allI)
  show "sorted (distance_trace pid p samples)"
    by (rule distance_trace_sorted)
next
  let ?p' = "fst (update_passenger_fare rate pid p cur speed dt)"
  assume inc: "total_distance p < total_distance ?p'"
  have "last_location p \<noteq> None"
  proof
    assume "last_location p = None"
    then have "total_distance ?p' = total_distance p"
      by (simp add: update_passenger_fare_no_last)
    with inc show False by simp
  qed
  then obtain lat lon where l: "last_location p = Some (lat, lon)"
    by (cases "last_location p") auto
  let ?moved = "fare_calculate_distance (Some (lat, lon)) (Some cur)"
  have "total_distance ?p' = total_distance p + (if 0.005 < ?moved then ?moved else 0)"
    by (rule update_passenger_fare_fields(2) [OF l])
  with inc have m: "0.005 < ?moved"
    by (simp split: if_splits)
  have "?moved = 0 \<or> ?moved = haversine lat lon (fst cur) (snd cur)"
    using fare_calculate_distance_cases [of lat lon "fst cur" "snd cur"] by simp
  with m have "0.005 < haversine lat lon (fst cur) (snd cur)"
    by auto
  with l show "\<exists>lat lon. last_location p = Some (lat, lon) \<and>
      0.005 < haversine lat lon (fst cur) (snd cur)"
    by blast
next
  fix lat lon
  let ?p' = "fst (update_passenger_fare rate pid p cur speed dt)"
  let ?moved = "fare_calculate_distance (Some (lat, lon)) (Some cur)"
  assume a: "last_location p = Some (lat, lon) \<and> haversine lat lon (fst cur) (snd cur) \<le> 0.005"
  then have l: "last_location p = Some (lat, lon)" by simp
  have "?moved = 0 \<or> ?moved = haversine lat lon (fst cur) (snd cur)"
    using fare_calculate_distance_cases [of lat lon "fst cur" "snd cur"] by simp
  with a have m: "\<not> 0.005 < ?moved"
    by auto
  show "total_distance ?p' = total_distance p"
    using update_passenger_fare_fields(2) [OF l, of rate pid cur speed dt] m by simp
  show "last_location ?p' = last_location p"
    using update_passenger_fare_fields(3) [OF l, of rate pid cur speed dt] m l by simp
qed

theorem accumulated_distance_monotone_witness:
  "(let p0 = board 0 100 (Some (19.0760, 72.8777)) passenger_init;
        p1 = fst (update_passenger_fare 12 0 p0 (19.0800, 72.8777) 15 2);
        p2 = fst (update_passenger_fare 12 0 p1 (19.08001, 72.8777) 15 2)
    in sorted (distance_trace 0 p0 [(12, (19.0800, 72.8777), 15, 2), (12, (19.08001, 72.8777), 15, 2)]) \<and>
       total_distance p0 < total_distance p1 \<and>
       0.005 < haversine 19.0760 72.8777 19.0800 72.8777 \<and>
       last_location p1 = Some (19.0800, 72.8777) \<and>
       haversine 19.0800 72.8777 19.08001 72.8777 \<le> 0.005 \<and>
       total_distance p2 = total_distance p1 \<and>
       last_location p2 = last_location p1)"
proof -
  let ?p0 = "board 0 100 (Some (19.0760, 72.8777)) passenger_init"
  let ?p1 = "fst (update_passenger_fare 12 0 ?p0 (19.0800, 72.8777) 15 2)"
  let ?p2 = "fst (update_passenger_fare 12 0 ?p1 (19.08001, 72.8777) 15 2)"
  have l0: "last_location ?p0 = Some (19.0760, 72.8777)"
    by (simp add: board_def)
  have d0: "total_distance ?p0 = 0"
    by (simp add: board_def)
  have m: "0.005 < fare_calculate_distance (Some (19.0760, 72.8777)) (Some (19.0800, 72.8777))"
    using meridian_step_above_floor by (simp add: fare_calculate_distance_def)
  have inc: "total_distance ?p0 < total_distance ?p1"
    using update_passenger_fare_fields(2) [OF l0, of 12 0 "(19.0800, 72.8777)" 15 2] m d0
    by simp
  have l1: "last_location ?p1 = Some (19.0800, 72.8777)"
    using update_passenger_fare_fields(3) [OF l0, of 12 0 "(19.0800, 72.8777)" 15 2] m
    by simp
  have le: "haversine 19.0800 72.8777 19.08001 72.8777 \<le> 0.005"
    using meridian_step_below_floor by simp
  have A: "sorted (distance_trace 0 ?p0
      [(12, (19.0800, 72.8777), 15, 2), (12, (19.08001, 72.8777), 15, 2)])"
    using accumulated_distance_monotone [where pid = 0 and p = ?p0
        and samples = "[(12, (19.0800, 72.8777), 15, 2), (12, (19.08001, 72.8777), 15, 2)]"]
    by blast
  have "\<exists>lat lon. last_location ?p0 = Some (lat, lon) \<and>
      0.005 < haversine lat lon (fst (19.0800 :: real, 72.8777 :: real)) (snd (19.0800 :: real, 72.8777 :: real))"
    using accumulated_distance_monotone [where pid = 0 and p = ?p0 and rate = 12
        and cur = "(19.0800, 72.8777)" and speed = 15 and dt = 2] inc
    by blast
  then obtain lat lon where ll: "last_location ?p0 = Some (lat, lon)"
    and h: "0.005 < haversine lat lon (fst (19.0800 :: real, 72.8777 :: real))
        (snd (19.0800 :: real, 72.8777 :: real))"
    by blast
  have "Some (lat, lon) = Some (19.0760, 72.8777)"
    by (metis l0 ll)
  then have "lat = 19.0760 \<and> lon = 72.8777"
    by (simp only: option.inject prod.inject)
  with h have B: "0.005 < haversine 19.0760 72.8777 19.0800 72.8777"
    by (simp only: fst_conv snd_conv)
  have pre: "last_location ?p1 = Some (19.0800, 72.8777) \<and>
      haversine 19.0800 72.8777 (fst (19.08001 :: real, 72.8777 :: real))
        (snd (19.08001 :: real, 72.8777 :: real)) \<le> 0.005"
    using l1 le by (simp only: fst_conv snd_conv simp_thms)
  have C: "total_distance ?p2 = total_distance ?p1 \<and> last_location ?p2 = last_location ?p1"
    using accumulated_distance_monotone [where pid = 0 and p = ?p1 and rate = 12
        and cur = "(19.08001, 72.8777)" and speed = 15 and dt = 2] pre
    by blast
  show ?thesis
    unfolding Let_def using A inc B l1 le C by blast
qed

text \<open>
  C3. In one tick of a slot that has a last location, the fare grows by the distance
  charge plus the waiting charge, each decided by its own test; when the sample is
  below 2.0 km/h and still more than 0.005 km from the last location, both
  \<open>moved * rate\<close> and \<open>(tick_seconds / 60) * 2.0\<close> are added in that tick.
\<close>

theorem distance_and_waiting_charge_independent:
  assumes "last_location p = Some l"
  shows "fare (fst (update_passenger_fare rate pid p cur speed dt)) =
           fare p + distance_charge rate (Some l) cur + waiting_charge speed dt \<and>
         (0.005 < fare_calculate_distance (Some l) (Some cur) \<and> speed < 2 \<longrightarrow>
            fare (fst (update_passenger_fare rate pid p cur speed dt)) =
              fare p + fare_calculate_distance (Some l) (Some cur) * rate + (dt / 60) * 2 \<and>
            total_distance (fst (update_passenger_fare rate pid p cur speed dt)) =
              total_distance p + fare_calculate_distance (Some l) (Some cur) \<and>
            waiting_time (fst (update_passenger_fare rate pid p cur speed dt)) =
              waiting_time p + dt / 60)"
  using update_passenger_fare_fields(1,2,4) [OF assms, of rate pid cur speed dt]
  by (simp add: distance_charge_def waiting_charge_def)

theorem distance_and_waiting_charge_independent_witness:
  "(let p0 = board 0 100 (Some (19.0760, 72.8777)) passenger_init;
        p1 = fst (update_passenger_fare 12 0 p0 (19.0800, 72.8777) 1.5 2)
    in last_location p0 = Some (19.0760, 72.8777) \<and>
       0.005 < fare_calculate_distance (Some (19.0760, 72.8777)) (Some (19.0800, 72.8777)) \<and>
       (1.5 :: real) < 2 \<and>
       fare p1 = 6371 * (0.004 * pi / 180) * 12 + (2 / 60) * 2 \<and>
       total_distance p1 = 6371 * (0.004 * pi / 180) \<and>
       waiting_time p1 = 2 / 60)"
proof -
  let ?p0 = "board 0 100 (Some (19.0760, 72.8777)) passenger_init"
  have l0: "last_location ?p0 = Some (19.0760, 72.8777)"
    by (simp add: board_def)
  have z: "fare ?p0 = 0" "total_distance ?p0 = 0" "waiting_time ?p0 = 0"
    by (simp_all add: board_def)
  have e: "fare_calculate_distance (Some (19.0760, 72.8777)) (Some (19.0800, 72.8777))
      = 6371 * (0.004 * pi / 180)"
    using meridian_step_above_floor by (simp add: fare_calculate_distance_def)
  have m: "0.005 < fare_calculate_distance (Some (19.0760, 72.8777)) (Some (19.0800, 72.8777))"
    using meridian_step_above_floor by (simp add: fare_calculate_distance_def)
  show ?thesis
    unfolding Let_def
    using distance_and_waiting_charge_independent [OF l0, of 12 0 "(19.0800, 72.8777)" "1.5" 2]
      l0 m z e
    by simp
qed

text \<open>
  C6. The distance function is documented as the distance between two points in km and
  is to be the haversine formula for every pair of locations. On the prime meridian and
  on the equator the code departs from it: its test for absent input,
  \<^verbatim>\<open>not all([lat1, lon1, lat2, lon2])\<close>, also catches a coordinate that is 0.0, and two
  points of longitude 0.0 that lie one degree of latitude (about 111 km) apart are
  given the distance 0.0.
\<close>

theorem calculate_distance_not_haversine_at_zero:
  "calculate_distance 51 0 52 0 = 0 \<and>
   haversine 51 0 52 0 = 6371 * (pi / 180) \<and>
   calculate_distance 51 0 52 0 \<noteq> haversine 51 0 52 0"
proof -
  have c: "calculate_distance 51 0 52 0 = 0"
    by (simp add: calculate_distance_def)
  have h: "haversine 51 0 52 0 = 6371 * (pi / 180)"
    using haversine_meridian [of 52 51 0] by simp
  have "0 < haversine 51 0 52 0" by (simp only: h) simp
  then have "calculate_distance 51 0 52 0 \<noteq> haversine 51 0 52 0"
    by (metis c less_irrefl)
  with c h show ?thesis by blast
qed

text \<open>
  Away from that defect the code meets what C6 asks: for coordinates none of which is
  0.0 the distance function equals the haversine great-circle formula with Earth
  radius 6371.0 km; the distance from a location to itself is 0; and the distance is
  symmetric. (On exact reals the symmetry is an equality.)
\<close>

theorem calculate_distance_haversine_identity_symmetry:
  "(lat1 \<noteq> 0 \<and> lon1 \<noteq> 0 \<and> lat2 \<noteq> 0 \<and> lon2 \<noteq> 0 \<longrightarrow>
      calculate_distance lat1 lon1 lat2 lon2 =
        2 * 6371 * arcsin (sqrt ((sin ((radians lat2 - radians lat1) / 2))\<^sup>2 +
          cos (radians lat1) * cos (radians lat2) *
          (sin ((radians lon2 - radians lon1) / 2))\<^sup>2))) \<and>
   calculate_distance lat1 lon1 lat1 lon1 = 0 \<and>
   calculate_distance lat1 lon1 lat2 lon2 = calculate_distance lat2 lon2 lat1 lon1"
proof (intro conjI impI)
  assume "lat1 \<noteq> 0 \<and> lon1 \<noteq> 0 \<and> lat2 \<noteq> 0 \<and> lon2 \<noteq> 0"
  then have "calculate_distance lat1 lon1 lat2 lon2 = haversine lat1 lon1 lat2 lon2"
    by (simp add: calculate_distance_haversine)
  then show "calculate_distance lat1 lon1 lat2 lon2 =
      2 * 6371 * arcsin (sqrt ((sin ((radians lat2 - radians lat1) / 2))\<^sup>2 +
        cos (radians lat1) * cos (radians lat2) *
        (sin ((radians lon2 - radians lon1) / 2))\<^sup>2))"
    by (simp add: haversine_def haversine_a_def Let_def)
next
  show "calculate_distance lat1 lon1 lat1 lon1 = 0"
    by (rule calculate_distance_same)
next
  show "calculate_distance lat1 lon1 lat2 lon2 = calculate_distance lat2 lon2 lat1 lon1"
    by (rule calculate_distance_sym)
qed

theorem calculate_distance_haversine_identity_symmetry_witness:
  "(19.0760 :: real) \<noteq> 0 \<and> (72.8777 :: real) \<noteq> 0 \<and> (19.0800 :: real) \<noteq> 0 \<and>
   calculate_distance 19.0760 72.8777 19.0800 72.8777 =
     2 * 6371 * arcsin (sqrt ((sin ((radians 19.0800 - radians 19.0760) / 2))\<^sup>2 +
       cos (radians 19.0760) * cos (radians 19.0800) *
       (sin ((radians 72.8777 - radians 72.8777) / 2))\<^sup>2)) \<and>
   calculate_distance 19.0760 72.8777 19.0800 72.8777 = 6371 * (0.004 * pi / 180) \<and>
   calculate_distance 19.0760 72.8777 19.0760 72.8777 = 0 \<and>
   calculate_distance 19.0760 72.8777 19.0800 72.8777 =
     calculate_distance 19.0800 72.8777 19.0760 72.8777"
proof -
  have nz: "(19.0760 :: real) \<noteq> 0 \<and> (72.8777 :: real) \<noteq> 0 \<and> (19.0800 :: real) \<noteq> 0 \<and>
      (72.8777 :: real) \<noteq> 0"
    by simp
  note T = calculate_distance_haversine_identity_symmetry
    [of "19.0760" "72.8777" "19.0800" "72.8777"]
  have a: "calculate_distance 19.0760 72.8777 19.0800 72.8777 =
     2 * 6371 * arcsin (sqrt ((sin ((radians 19.0800 - radians 19.0760) / 2))\<^sup>2 +
       cos (radians 19.0760) * cos (radians 19.0800) *
       (sin ((radians 72.8777 - radians 72.8777) / 2))\<^sup>2))"
    using T nz by blast
  have b: "calculate_distance 19.0760 72.8777 19.0760 72.8777 = 0"
    using T by blast
  have c: "calculate_distance 19.0760 72.8777 19.0800 72.8777 =
     calculate_distance 19.0800 72.8777 19.0760 72.8777"
    using T by blast
  have d: "calculate_distance 19.0760 72.8777 19.0800 72.8777 = 6371 * (0.004 * pi / 180)"
    using meridian_step_above_floor by blast
  show ?thesis
    using nz a b c d by blast
qed

text \<open>
  C10. When any of the four coordinates is 0.0 the distance function returns 0.0, so a
  tick of a slot whose last location or whose sample has such a coordinate adds no
  distance and no distance fare: the accumulated distance and the last location stay
  as they were, and the fare grows by the waiting charge alone.
\<close>

theorem zero_coordinate_contributes_nothing:
  assumes "lat1 = 0 \<or> lon1 = 0 \<or> lat2 = 0 \<or> lon2 = 0"
  shows "calculate_distance lat1 lon1 lat2 lon2 = 0 \<and>
         fare_calculate_distance (Some (lat1, lon1)) (Some (lat2, lon2)) = 0 \<and>
         (last_location p = Some (lat1, lon1) \<longrightarrow>
            total_distance (fst (update_passenger_fare rate pid p (lat2, lon2) speed dt)) =
              total_distance p \<and>
            last_location (fst (update_passenger_fare rate pid p (lat2, lon2) speed dt)) =
              last_location p \<and>
            distance_charge rate (last_location p) (lat2, lon2) = 0 \<and>
            fare (fst (update_passenger_fare rate pid p (lat2, lon2) speed dt)) =
              fare p + waiting_charge speed dt)"
proof -
  have z: "calculate_distance lat1 lon1 lat2 lon2 = 0"
    using assms by (rule calculate_distance_zero_component)
  then have f: "fare_calculate_distance (Some (lat1, lon1)) (Some (lat2, lon2)) = 0"
    by (simp add: fare_calculate_distance_def)
  have "last_location p = Some (lat1, lon1) \<Longrightarrow>
      total_distance (fst (update_passenger_fare rate pid p (lat2, lon2) speed dt)) =
        total_distance p \<and>
      last_location (fst (update_passenger_fare rate pid p (lat2, lon2) speed dt)) =
        last_location p \<and>
      distance_charge rate (last_location p) (lat2, lon2) = 0 \<and>
      fare (fst (update_passenger_fare rate pid p (lat2, lon2) speed dt)) =
        fare p + waiting_charge speed dt"
    using update_passenger_fare_fields(1,2,3) [of p "(lat1, lon1)" rate pid "(lat2, lon2)" speed dt] f
    by (simp add: distance_charge_def)
  with z f show ?thesis by blast
qed

theorem zero_coordinate_contributes_nothing_witness:
  "(let p0 = board 0 100 (Some (0, 72.8777)) passenger_init;
        p1 = fst (update_passenger_fare 12 0 p0 (1, 72.8777) 15 2)
    in last_location p0 = Some (0, 72.8777) \<and>
       haversine 0 72.8777 1 72.8777 = 6371 * (pi / 180) \<and>
       calculate_distance 0 72.8777 1 72.8777 = 0 \<and>
       total_distance p1 = 0 \<and>
       last_location p1 = Some (0, 72.8777) \<and>
       fare p1 = 0)"
proof -
  let ?p0 = "board 0 100 (Some (0, 72.8777)) passenger_init"
  have l0: "last_location ?p0 = Some (0, 72.8777)"
    by (simp add: board_def)
  have z: "fare ?p0 = 0" "total_distance ?p0 = 0"
    by (simp_all add: board_def)
  have h: "haversine 0 72.8777 1 72.8777 = 6371 * (pi / 180)"
    using haversine_meridian [of 1 0 "72.8777"] by simp
  have w: "waiting_charge 15 2 = 0"
    by (simp add: waiting_charge_def)
  have pre: "(0 :: real) = 0 \<or> (72.8777 :: real) = 0 \<or> (1 :: real) = 0 \<or> (72.8777 :: real) = 0"
    by simp
  show ?thesis
    unfolding Let_def
    using zero_coordinate_contributes_nothing [OF pre, of ?p0 12 0 15 2] l0 z h w
    by simp
qed

subsection \<open>The slots under the calculation loop\<close>

lemma update_onboard_keys:
  "map fst (fst (update_onboard rate cur speed dt ps)) = map fst ps"
  by (induction ps) (auto simp add: split_def Let_def)

lemma update_onboard_lookup:
  "map_of (fst (update_onboard rate cur speed dt ps)) i =
     map_option (\<lambda>p. if onboard p then fst (update_passenger_fare rate i p cur speed dt) else p)
       (map_of ps i)"
  by (induction ps) (auto simp add: split_def Let_def)

lemma update_passenger_fare_signals:
  "rides_completed i (snd (update_passenger_fare rate pid p cur speed dt)) = 0"
  by (simp add: update_passenger_fare_def Let_def rides_completed_def)

lemma rides_completed_append:
  "rides_completed i (xs @ ys) = rides_completed i xs + rides_completed i ys"
  by (simp add: rides_completed_def)

lemma rides_completed_Nil: "rides_completed i [] = 0"
  by (simp add: rides_completed_def)

lemma update_onboard_signals:
  "rides_completed i (snd (update_onboard rate cur speed dt ps)) = 0"
  by (induction ps)
    (auto simp add: split_def Let_def rides_completed_append update_passenger_fare_signals
      rides_completed_Nil)

lemma update_onboard_start_times:
  "list_all (\<lambda>(i, p). onboard p \<longrightarrow> start_time p \<noteq> None) ps \<Longrightarrow>
   list_all (\<lambda>(i, p). onboard p \<longrightarrow> start_time p \<noteq> None)
     (fst (update_onboard rate cur speed dt ps))"
  by (induction ps) (auto simp add: split_def Let_def update_passenger_fare_frame)

lemma update_private_fare_frame:
  "passengers (update_private_fare now cur speed dt fc) = passengers fc"
  "private_mode_active (update_private_fare now cur speed dt fc) = private_mode_active fc"
  "private_start_time (update_private_fare now cur speed dt fc) = private_start_time fc"
  "gps (update_private_fare now cur speed dt fc) = gps fc"
  "fare_rate_per_km (update_private_fare now cur speed dt fc) = fare_rate_per_km fc"
  "rides_completed i (emitted (update_private_fare now cur speed dt fc)) =
     rides_completed i (emitted fc)"
  by (simp_all add: update_private_fare_def Let_def rides_completed_def split: option.splits)

lemma calculation_loop_iter_passengers:
  "passengers (calculation_loop_iter now fc) =
     (if 1 \<le> now - last_gps_update fc
      then fst (update_onboard (fare_rate_per_km fc) (current_location (gps fc))
                  (current_speed (gps fc)) (now - last_gps_update fc) (passengers fc))
      else passengers fc)"
  by (simp add: calculation_loop_iter_def Let_def get_location_def get_speed_def split_def
      update_private_fare_frame)

lemma calculation_loop_iter_frame:
  "private_mode_active (calculation_loop_iter now fc) = private_mode_active fc"
  "private_start_time (calculation_loop_iter now fc) = private_start_time fc"
  "gps (calculation_loop_iter now fc) = gps fc"
  "fare_rate_per_km (calculation_loop_iter now fc) = fare_rate_per_km fc"
  by (simp_all add: calculation_loop_iter_def Let_def get_location_def split_def
      update_private_fare_frame)

lemma calculation_loop_iter_rides_completed:
  "rides_completed i (emitted (calculation_loop_iter now fc)) = rides_completed i (emitted fc)"
  by (simp add: calculation_loop_iter_def Let_def get_location_def split_def
      update_private_fare_frame rides_completed_append update_onboard_signals)

subsection \<open>Boarding and alighting\<close>

lemma map_of_update_other:
  "i \<noteq> k \<Longrightarrow> map_of (AList.update k v al) i = map_of al i"
  by (simp add: update_conv')

lemma map_of_update_same: "map_of (AList.update k v al) k = Some v"
  by (simp add: update_conv')

lemma update_keeps_keys:
  "map_of al k = Some v' \<Longrightarrow> map fst (AList.update k v al) = map fst al"
  by (induction al) (auto split: if_splits)

lemma update_keeps_list_all:
  "list_all P al \<Longrightarrow> P (k, v) \<Longrightarrow> list_all P (AList.update k v al)"
  by (induction al) auto

lemma list_all_lookup:
  "list_all P al \<Longrightarrow> map_of al k = Some v \<Longrightarrow> P (k, v)"
  by (induction al) (auto split: if_splits)

lemma handle_passenger_change_board:
  assumes "map_of (passengers fc) pid = Some p" "\<not> onboard p"
  shows "handle_passenger_change now pid True fc =
     (if int (length (passengers fc)) \<le> pid then Inr fc
      else Inr (fc\<lparr>passengers :=
                     AList.update pid (board pid now (get_location (gps fc)) p) (passengers fc),
                   emitted := emitted fc @ [Fare_updated pid 0]\<rparr>))"
  using assms by (simp add: handle_passenger_change_def Let_def)

lemma handle_passenger_change_alight:
  assumes "map_of (passengers fc) pid = Some p" "onboard p" "start_time p = Some st"
    "pid < int (length (passengers fc))"
  shows "handle_passenger_change now pid False fc =
     Inr (fc\<lparr>passengers :=
                AList.update pid (reset_passenger (p\<lparr>onboard := False\<rparr>)) (passengers fc),
              emitted := emitted fc @
                [Ride_completed pid
                   (ride_data_of (fare_rate_per_km fc) pid st now (get_location (gps fc))
                      (p\<lparr>onboard := False\<rparr>))]\<rparr>)"
  using assms by (simp add: handle_passenger_change_def Let_def)

lemma handle_passenger_change_noop:
  assumes "map_of (passengers fc) pid = Some p" "onboard p = onb"
  shows "handle_passenger_change now pid onb fc = Inr fc"
  using assms by (auto simp add: handle_passenger_change_def Let_def)

lemma stop_private_mode_inactive:
  "\<not> private_mode_active fc \<Longrightarrow> stop_private_mode now fc = Inr (None, fc)"
  by (simp add: stop_private_mode_def)

lemma stop_private_mode_active:
  assumes "private_mode_active fc" "private_start_time fc = Some st"
  shows "stop_private_mode now fc =
     Inr (Some (private_ride_data_of st now (fc\<lparr>private_mode_active := False\<rparr>)),
          fc\<lparr>private_mode_active := False\<rparr>)"
  using assms by (simp add: stop_private_mode_def Let_def)

lemma well_formed_length: "well_formed fc \<Longrightarrow> length (passengers fc) = 3"
proof -
  assume "well_formed fc"
  then have "map fst (passengers fc) = [0, 1, 2]" by (simp add: well_formed_def)
  then have "length (map fst (passengers fc)) = 3" by simp
  then show ?thesis by simp
qed

lemma well_formed_slot:
  assumes "well_formed fc" "0 \<le> i" "i < 3"
  shows "\<exists>p. map_of (passengers fc) i = Some p \<and> (onboard p \<longrightarrow> start_time p \<noteq> None)"
proof -
  have k: "map fst (passengers fc) = [0, 1, 2]"
    using assms(1) by (simp add: well_formed_def)
  have "i \<in> set (map fst (passengers fc))"
    using assms(2,3) by (simp add: k) arith
  then obtain p where p: "map_of (passengers fc) i = Some p"
    by (metis map_of_eq_None_iff not_None_eq set_map)
  have "list_all (\<lambda>(i, p). onboard p \<longrightarrow> start_time p \<noteq> None) (passengers fc)"
    using assms(1) by (simp add: well_formed_def)
  from list_all_lookup [OF this p] p show ?thesis by simp
qed

subsection \<open>Steps preserve well-formedness and never raise\<close>

lemma handle_passenger_change_well_formed:
  assumes wf: "well_formed fc" and i: "0 \<le> i" "i < 3"
  shows "\<exists>fc'. handle_passenger_change now i onb fc = Inr fc' \<and> well_formed fc'"
proof -
  obtain p where p: "map_of (passengers fc) i = Some p"
    and st: "onboard p \<longrightarrow> start_time p \<noteq> None"
    using well_formed_slot [OF wf i] by blast
  have len: "i < int (length (passengers fc))"
    using well_formed_length [OF wf] i by simp
  have keys: "map fst (passengers fc) = [0, 1, 2]"
    and all: "list_all (\<lambda>(i, p). onboard p \<longrightarrow> start_time p \<noteq> None) (passengers fc)"
    and priv: "private_mode_active fc \<longrightarrow> private_start_time fc \<noteq> None"
    using wf by (simp_all add: well_formed_def)
  consider (board) "onb" "\<not> onboard p" | (alight) "\<not> onb" "onboard p" | (same) "onboard p = onb"
    by blast
  then show ?thesis
  proof cases
    case board
    have "handle_passenger_change now i True fc =
        Inr (fc\<lparr>passengers :=
                  AList.update i (board i now (get_location (gps fc)) p) (passengers fc),
                emitted := emitted fc @ [Fare_updated i 0]\<rparr>)"
      using handle_passenger_change_board [OF p board(2), of now] len by simp
    moreover have "well_formed (fc\<lparr>passengers :=
                  AList.update i (board i now (get_location (gps fc)) p) (passengers fc),
                emitted := emitted fc @ [Fare_updated i 0]\<rparr>)"
      using keys all priv update_keeps_keys [OF p]
      by (simp add: well_formed_def update_keeps_list_all board_def)
    ultimately show ?thesis using board(1) by simp
  next
    case alight
    then obtain t where t: "start_time p = Some t"
      using st by auto
    have "well_formed (fc\<lparr>passengers :=
                AList.update i (reset_passenger (p\<lparr>onboard := False\<rparr>)) (passengers fc),
              emitted := emitted fc @
                [Ride_completed i
                   (ride_data_of (fare_rate_per_km fc) i t now (get_location (gps fc))
                      (p\<lparr>onboard := False\<rparr>))]\<rparr>)"
      using keys all priv update_keeps_keys [OF p]
      by (simp add: well_formed_def update_keeps_list_all reset_passenger_def)
    then show ?thesis
      using handle_passenger_change_alight [OF p alight(2) t len, of now] alight(1) by simp
  next
    case same
    then show ?thesis
      using handle_passenger_change_noop [OF p same, of now] wf by simp
  qed
qed

lemma step_well_formed:
  assumes "well_formed fc" "switch_events [a]"
  shows "\<exists>fc'. step a fc = Inr fc' \<and> well_formed fc'"
proof (cases a)
  case (Tick now)
  have all: "list_all (\<lambda>(i, p). onboard p \<longrightarrow> start_time p \<noteq> None) (passengers fc)"
    using assms(1) by (simp add: well_formed_def)
  have "well_formed (calculation_loop_iter now fc)"
    using assms(1) update_onboard_start_times [OF all]
    by (simp add: well_formed_def calculation_loop_iter_passengers calculation_loop_iter_frame
        update_onboard_keys)
  with Tick show ?thesis by simp
next
  case (Passenger_change now i onb)
  with assms show ?thesis
    using handle_passenger_change_well_formed [of fc i now onb] by simp
next
  case (Stop_private now)
  show ?thesis
  proof (cases "private_mode_active fc")
    case True
    then obtain t where "private_start_time fc = Some t"
      using assms(1) by (auto simp add: well_formed_def)
    with True assms(1) Stop_private show ?thesis
      by (simp add: stop_private_mode_active well_formed_def)
  next
    case False
    with assms(1) Stop_private show ?thesis
      by (simp add: stop_private_mode_def)
  qed
qed (use assms(1) in \<open>simp_all add: well_formed_def set_fare_rate_def start_private_mode_def\<close>)

lemma run_well_formed:
  "well_formed fc \<Longrightarrow> switch_events as \<Longrightarrow> \<exists>fc'. run as fc = Inr fc' \<and> well_formed fc'"
proof (induction as arbitrary: fc)
  case Nil
  then show ?case by simp
next
  case (Cons a as)
  have "switch_events [a]" "switch_events as"
    using Cons.prems(2) by (cases a; simp)+
  then show ?case
    using step_well_formed [OF Cons.prems(1), of a] Cons.IH by fastforce
qed

subsection \<open>One slot along a run\<close>

lemma handle_passenger_change_other_slot:
  assumes "handle_passenger_change now i onb fc = Inr fc'" "i \<noteq> pid"
  shows "map_of (passengers fc') pid = map_of (passengers fc) pid \<and>
         rides_completed pid (emitted fc') = rides_completed pid (emitted fc)"
  using assms
  by (auto simp add: handle_passenger_change_def Let_def map_of_update_other
      rides_completed_def split: if_splits option.splits)

lemma tick_slot:
  assumes "map_of (passengers fc) pid = Some p" "onboard p"
  shows "\<exists>p'. map_of (passengers (calculation_loop_iter now fc)) pid = Some p' \<and>
           onboard p' \<and> start_time p' = start_time p \<and> ride_id p' = ride_id p \<and>
           start_location p' = start_location p \<and>
           fare p' = fare p + sum_list (step_charges pid (Tick now) fc)"
proof (cases "1 \<le> now - last_gps_update fc")
  case False
  with assms show ?thesis
    by (simp add: calculation_loop_iter_passengers step_charges_def)
next
  case True
  let ?p' = "fst (update_passenger_fare (fare_rate_per_km fc) pid p (current_location (gps fc))
      (current_speed (gps fc)) (now - last_gps_update fc))"
  have look: "map_of (passengers (calculation_loop_iter now fc)) pid = Some ?p'"
    using assms True by (simp add: calculation_loop_iter_passengers update_onboard_lookup)
  have fr: "onboard ?p' \<and> start_time ?p' = start_time p \<and> ride_id ?p' = ride_id p \<and>
      start_location ?p' = start_location p"
    using assms(2) by (simp add: update_passenger_fare_frame)
  have "fare ?p' = fare p + sum_list (step_charges pid (Tick now) fc)"
  proof (cases "last_location p")
    case None
    then show ?thesis
      using assms by (simp add: update_passenger_fare_no_last step_charges_def)
  next
    case (Some l)
    then show ?thesis
      using assms True update_passenger_fare_fields(1) [OF Some]
      by (simp add: step_charges_def)
  qed
  with look fr show ?thesis by blast
qed

lemma step_slot:
  assumes "step a fc = Inr fc'" "undisturbed pid [a]"
    "map_of (passengers fc) pid = Some p" "onboard p"
  shows "\<exists>p'. map_of (passengers fc') pid = Some p' \<and>
           onboard p' \<and> start_time p' = start_time p \<and> ride_id p' = ride_id p \<and>
           start_location p' = start_location p \<and>
           fare p' = fare p + sum_list (step_charges pid a fc) \<and>
           rides_completed pid (emitted fc') = rides_completed pid (emitted fc)"
proof (cases a)
  case (Tick now)
  then have "fc' = calculation_loop_iter now fc"
    using assms(1) by simp
  then show ?thesis
    using tick_slot [OF assms(3,4), of now] Tick
    by (simp add: calculation_loop_iter_rides_completed)
next
  case (Passenger_change now i onb)
  then have "handle_passenger_change now i onb fc = Inr fc'" "i \<noteq> pid"
    using assms(1,2) by simp_all
  from handle_passenger_change_other_slot [OF this] assms(3,4) Passenger_change
  show ?thesis
    by (simp add: step_charges_def)
next
  case (Start_private now)
  with assms show ?thesis
    by (auto simp add: step_charges_def start_private_mode_def rides_completed_def)
next
  case (Stop_private now)
  with assms show ?thesis
    by (auto simp add: step_charges_def stop_private_mode_def Let_def
        split: if_splits option.splits)
qed (use assms in \<open>auto simp add: step_charges_def set_fare_rate_def\<close>)

lemma run_slot:
  assumes "run as fc = Inr fc'" "undisturbed pid as"
    "map_of (passengers fc) pid = Some p" "onboard p"
  shows "\<exists>p'. map_of (passengers fc') pid = Some p' \<and>
           onboard p' \<and> start_time p' = start_time p \<and> ride_id p' = ride_id p \<and>
           start_location p' = start_location p \<and>
           fare p' = fare p + sum_list (run_charges pid as fc) \<and>
           rides_completed pid (emitted fc') = rides_completed pid (emitted fc)"
  using assms
proof (induction as arbitrary: fc p)
  case Nil
  then show ?case by simp
next
  case (Cons a as)
  from Cons.prems(1) obtain fc1 where s: "step a fc = Inr fc1" and r: "run as fc1 = Inr fc'"
    by (auto split: sum.splits)
  have u: "undisturbed pid [a]" "undisturbed pid as"
    using Cons.prems(2) by (cases a; simp)+
  from step_slot [OF s u(1) Cons.prems(3,4)]
  obtain p1 where p1: "map_of (passengers fc1) pid = Some p1" "onboard p1"
    and k1: "start_time p1 = start_time p" "ride_id p1 = ride_id p"
      "start_location p1 = start_location p"
      "fare p1 = fare p + sum_list (step_charges pid a fc)"
      "rides_completed pid (emitted fc1) = rides_completed pid (emitted fc)"
    by blast
  from Cons.IH [OF r u(2) p1]
  obtain p' where p': "map_of (passengers fc') pid = Some p'" "onboard p'"
    and k': "start_time p' = start_time p1" "ride_id p' = ride_id p1"
      "start_location p' = start_location p1"
      "fare p' = fare p1 + sum_list (run_charges pid as fc1)"
      "rides_completed pid (emitted fc') = rides_completed pid (emitted fc1)"
    by blast
  have "fare p' = fare p + sum_list (run_charges pid (a # as) fc)"
    using k1(4) k'(4) s by simp
  with p' k1 k' show ?case by simp
qed

text \<open>
  C8. An offboard event for a slot that is already offboard returns normally with the
  state as it was, and so does stopping private mode while it is not active (it
  returns \<^verbatim>\<open>None\<close>): no exception, no change of any trip leg, no signal.
\<close>

theorem alighting_when_not_boarded_is_noop:
  "(map_of (passengers fc) pid = Some p \<and> \<not> onboard p \<longrightarrow>
      handle_passenger_change now pid False fc = Inr fc) \<and>
   (\<not> private_mode_active fc \<longrightarrow> stop_private_mode now fc = Inr (None, fc))"
  using handle_passenger_change_noop [of fc pid p False now]
  by (simp add: stop_private_mode_inactive)

theorem alighting_when_not_boarded_is_noop_witness:
  "(let fc = fare_calculator_init gps_init 12 0
    in map_of (passengers fc) 1 = Some passenger_init \<and>
       \<not> onboard passenger_init \<and>
       handle_passenger_change 50 1 False fc = Inr fc \<and>
       \<not> private_mode_active fc \<and>
       stop_private_mode 50 fc = Inr (None, fc))"
proof -
  let ?fc = "fare_calculator_init gps_init 12 0"
  have a: "map_of (passengers ?fc) 1 = Some passenger_init \<and> \<not> onboard passenger_init"
    by (simp add: fare_calculator_init_def passenger_init_def)
  have b: "\<not> private_mode_active ?fc"
    by (simp add: fare_calculator_init_def)
  show ?thesis
    unfolding Let_def
    using alighting_when_not_boarded_is_noop [of ?fc 1 passenger_init 50] a b
    by blast
qed

text \<open>
  C1. The claim as worded asks for a fresh ride id at every boarding. The id is built
  from the slot number and the clock in whole seconds, so a slot that boards, alights
  and boards again within one clock second is given the id of the ride it has just
  completed. Here slot 0 boards at 100.2 s, alights at 100.5 s and boards at 100.8 s.
\<close>

theorem ride_id_repeats_within_a_second:
  "(let fc0 = fare_calculator_init gps_init 12 0;
        r1 = handle_passenger_change 100.2 0 True fc0;
        r2 = handle_passenger_change 100.5 0 False (projr r1);
        r3 = handle_passenger_change 100.8 0 True (projr r2)
    in \<not> isl r1 \<and> \<not> isl r2 \<and> \<not> isl r3 \<and>
       map_option ride_id (map_of (passengers (projr r1)) 0) = Some (Some ''RIDE-1-100'') \<and>
       map_option ride_id (map_of (passengers (projr r2)) 0) = Some None \<and>
       map_option ride_id (map_of (passengers (projr r3)) 0) = Some (Some ''RIDE-1-100''))"
  by (simp add: Let_def fare_calculator_init_def gps_init_def passenger_init_def
      handle_passenger_change_def board_def reset_passenger_def get_location_def
      ride_id_of_def py_int_def str_int_def str_nat.simps digit_char_def)

text \<open>
  C1, amended. From a well-formed state, boarding an offboard slot returns normally
  and leaves the slot onboard with fare, distance and waiting time zero, the current
  location as start and last location, and the non-null ride id
  \<open>RIDE-<slot+1>-<whole seconds of the clock>\<close>. After any run of the other activities
  of the engine, alighting returns normally and emits one ride-completed record for
  the slot, the only one since the boarding; its ride id is the one assigned at
  boarding and its \<open>fare_amount\<close> is the sum of the charges of the ticks in between,
  rounded to 2 decimals; the slot is then back in its zero state.
\<close>

theorem boarding_then_alighting:
  assumes "well_formed fc" "0 \<le> pid" "pid < 3"
    and "map_of (passengers fc) pid = Some p" "\<not> onboard p"
    and "switch_events as" "undisturbed pid as"
  shows "\<exists>fc1 p1 fc2 fc3 rd.
     handle_passenger_change t0 pid True fc = Inr fc1 \<and>
     map_of (passengers fc1) pid = Some p1 \<and> onboard p1 \<and>
     fare p1 = 0 \<and> total_distance p1 = 0 \<and> waiting_time p1 = 0 \<and>
     start_location p1 = Some (current_location (gps fc)) \<and>
     last_location p1 = Some (current_location (gps fc)) \<and>
     ride_id p1 = Some (ride_id_of pid t0) \<and>
     run as fc1 = Inr fc2 \<and>
     handle_passenger_change t1 pid False fc2 = Inr fc3 \<and>
     emitted fc3 = emitted fc2 @ [Ride_completed pid rd] \<and>
     rides_completed pid (emitted fc3) = rides_completed pid (emitted fc) + 1 \<and>
     r_ride_id rd = Some (ride_id_of pid t0) \<and>
     r_fare_amount rd = py_round (sum_list (run_charges pid as fc1)) 2 \<and>
     map_of (passengers fc3) pid = Some passenger_init"
proof -
  let ?p1 = "board pid t0 (get_location (gps fc)) p"
  let ?fc1 = "fc\<lparr>passengers := AList.update pid ?p1 (passengers fc),
                 emitted := emitted fc @ [Fare_updated pid 0]\<rparr>"
  have len: "pid < int (length (passengers fc))"
    using well_formed_length [OF assms(1)] assms(3) by simp
  have b: "handle_passenger_change t0 pid True fc = Inr ?fc1"
    using handle_passenger_change_board [OF assms(4,5), of t0] len by simp
  have wf1: "well_formed ?fc1"
    using handle_passenger_change_well_formed [OF assms(1,2,3), of t0 True] b by simp
  have s1: "map_of (passengers ?fc1) pid = Some ?p1"
    by (simp add: map_of_update_same)
  have e1: "rides_completed pid (emitted ?fc1) = rides_completed pid (emitted fc)"
    by (simp add: rides_completed_def)
  have on1: "onboard ?p1"
    by (simp add: board_def)
  obtain fc2 where r: "run as ?fc1 = Inr fc2" and wf2: "well_formed fc2"
    using run_well_formed [OF wf1 assms(6)] by blast
  from run_slot [OF r assms(7) s1 on1]
  obtain p2 where s2: "map_of (passengers fc2) pid = Some p2" and on2: "onboard p2"
    and st2: "start_time p2 = Some t0" and id2: "ride_id p2 = Some (ride_id_of pid t0)"
    and f2: "fare p2 = sum_list (run_charges pid as ?fc1)"
    and e2: "rides_completed pid (emitted fc2) = rides_completed pid (emitted ?fc1)"
    by (auto simp add: board_def)
  let ?rd = "ride_data_of (fare_rate_per_km fc2) pid t0 t1 (get_location (gps fc2))
      (p2\<lparr>onboard := False\<rparr>)"
  let ?fc3 = "fc2\<lparr>passengers :=
                AList.update pid (reset_passenger (p2\<lparr>onboard := False\<rparr>)) (passengers fc2),
              emitted := emitted fc2 @ [Ride_completed pid ?rd]\<rparr>"
  have len2: "pid < int (length (passengers fc2))"
    using well_formed_length [OF wf2] assms(3) by simp
  have a: "handle_passenger_change t1 pid False fc2 = Inr ?fc3"
    by (rule handle_passenger_change_alight [OF s2 on2 st2 len2])
  have e3: "rides_completed pid (emitted ?fc3) = rides_completed pid (emitted fc) + 1"
    using e1 e2 by (simp add: rides_completed_def)
  have rd: "r_ride_id ?rd = Some (ride_id_of pid t0)"
    "r_fare_amount ?rd = py_round (sum_list (run_charges pid as ?fc1)) 2"
    using id2 f2 by (simp_all add: ride_data_of_def Let_def)
  have z: "map_of (passengers ?fc3) pid = Some passenger_init"
    by (simp add: map_of_update_same reset_passenger_def passenger_init_def)
  have p1: "fare ?p1 = 0" "total_distance ?p1 = 0" "waiting_time ?p1 = 0"
    "start_location ?p1 = Some (current_location (gps fc))"
    "last_location ?p1 = Some (current_location (gps fc))"
    "ride_id ?p1 = Some (ride_id_of pid t0)"
    by (simp_all add: board_def get_location_def)
  have em: "emitted ?fc3 = emitted fc2 @ [Ride_completed pid ?rd]"
    by simp
  show ?thesis
    using b s1 on1 p1 r a em e3 rd z by blast
qed

theorem boarding_then_alighting_witness:
  "(let fc = fare_calculator_init gps_init 12 0;
        as = [Speed_fix 0, Tick 30, Passenger_change 40 1 True, Tick 60]
    in well_formed fc \<and> switch_events as \<and> undisturbed 0 as \<and>
       map_of (passengers fc) 0 = Some passenger_init \<and> \<not> onboard passenger_init \<and>
       (\<exists>fc1 p1 fc2 fc3 rd.
          handle_passenger_change 0 0 True fc = Inr fc1 \<and>
          map_of (passengers fc1) 0 = Some p1 \<and> onboard p1 \<and>
          fare p1 = 0 \<and> total_distance p1 = 0 \<and> waiting_time p1 = 0 \<and>
          ride_id p1 = Some ''RIDE-1-0'' \<and>
          run as fc1 = Inr fc2 \<and>
          handle_passenger_change 60 0 False fc2 = Inr fc3 \<and>
          emitted fc3 = emitted fc2 @ [Ride_completed 0 rd] \<and>
          rides_completed 0 (emitted fc3) = 1 \<and>
          r_ride_id rd = Some ''RIDE-1-0'' \<and>
          r_fare_amount rd = 2 \<and>
          map_of (passengers fc3) 0 = Some passenger_init))"
proof -
  let ?fc = "fare_calculator_init gps_init 12 0"
  let ?as = "[Speed_fix 0, Tick 30, Passenger_change 40 1 True, Tick 60]"
  have wf: "well_formed ?fc"
    by (simp add: well_formed_def fare_calculator_init_def passenger_init_def)
  have sw: "switch_events ?as" and un: "undisturbed 0 ?as"
    by simp_all
  have sl: "map_of (passengers ?fc) 0 = Some passenger_init"
    by (simp add: fare_calculator_init_def)
  have off: "\<not> onboard passenger_init"
    by (simp add: passenger_init_def)
  from boarding_then_alighting [OF wf _ _ sl off sw un, of 0 60]
  obtain fc1 p1 fc2 fc3 rd where
    b: "handle_passenger_change 0 0 True ?fc = Inr fc1"
    and p1: "map_of (passengers fc1) 0 = Some p1" "onboard p1" "fare p1 = 0"
      "total_distance p1 = 0" "waiting_time p1 = 0" "ride_id p1 = Some (ride_id_of 0 0)"
    and r: "run ?as fc1 = Inr fc2"
    and a: "handle_passenger_change 60 0 False fc2 = Inr fc3"
    and em: "emitted fc3 = emitted fc2 @ [Ride_completed 0 rd]"
    and n: "rides_completed 0 (emitted fc3) = rides_completed 0 (emitted ?fc) + 1"
    and rd: "r_ride_id rd = Some (ride_id_of 0 0)"
      "r_fare_amount rd = py_round (sum_list (run_charges 0 ?as fc1)) 2"
    and z: "map_of (passengers fc3) 0 = Some passenger_init"
    by auto
  have rid: "ride_id_of 0 0 = ''RIDE-1-0''"
    by (simp add: ride_id_of_def py_int_def str_int_def str_nat.simps digit_char_def)
  have fc1: "fc1 = projr (handle_passenger_change 0 0 True ?fc)"
    using b by simp
  have "sum_list (run_charges 0 ?as fc1) = 2"
    unfolding fc1
    by (simp add: fare_calculator_init_def gps_init_def passenger_init_def
        handle_passenger_change_def board_def get_location_def get_speed_def Let_def
        speed_fix_def calculation_loop_iter_def update_passenger_fare_def
        fare_calculate_distance_def calculate_distance_same minimum_speed_threshold_def
        step_charges_def distance_charge_def waiting_charge_def)
  then have fa: "r_fare_amount rd = 2"
    using rd(2) by (simp add: py_round_def)
  have n0: "rides_completed 0 (emitted ?fc) = 0"
    by (simp add: fare_calculator_init_def rides_completed_def)
  show ?thesis
    unfolding Let_def
    using wf sw un sl off b p1 r a em n rd(1) fa z rid n0 by auto
qed

subsection \<open>The private leg along a run\<close>

lemma handle_passenger_change_private_frame:
  assumes "handle_passenger_change now i onb fc = Inr fc'"
  shows "private_mode_active fc' = private_mode_active fc \<and>
         private_start_time fc' = private_start_time fc \<and>
         private_start_location fc' = private_start_location fc"
  using assms
  by (auto simp add: handle_passenger_change_def Let_def split: if_splits option.splits)

lemma update_private_fare_start_location:
  "private_start_location (update_private_fare now cur speed dt fc) = private_start_location fc"
  by (simp add: update_private_fare_def Let_def split: option.splits)

lemma calculation_loop_iter_start_location:
  "private_start_location (calculation_loop_iter now fc) = private_start_location fc"
  by (simp add: calculation_loop_iter_def Let_def get_location_def split_def
      update_private_fare_start_location)

lemma step_private_frame:
  assumes "step a fc = Inr fc'" "no_private_events [a]"
  shows "private_mode_active fc' = private_mode_active fc \<and>
         private_start_time fc' = private_start_time fc \<and>
         private_start_location fc' = private_start_location fc"
proof (cases a)
  case (Tick now)
  with assms show ?thesis
    by (auto simp add: calculation_loop_iter_frame calculation_loop_iter_start_location)
next
  case (Passenger_change now i onb)
  with assms show ?thesis
    using handle_passenger_change_private_frame [of now i onb fc fc'] by simp
qed (use assms in \<open>auto simp add: set_fare_rate_def\<close>)

lemma run_private_frame:
  assumes "run as fc = Inr fc'" "no_private_events as"
  shows "private_mode_active fc' = private_mode_active fc \<and>
         private_start_time fc' = private_start_time fc \<and>
         private_start_location fc' = private_start_location fc"
  using assms
proof (induction as arbitrary: fc)
  case Nil
  then show ?case by simp
next
  case (Cons a as)
  from Cons.prems(1) obtain fc1 where s: "step a fc = Inr fc1" and r: "run as fc1 = Inr fc'"
    by (auto split: sum.splits)
  have n: "no_private_events [a]" "no_private_events as"
    using Cons.prems(2) by (cases a; simp)+
  show ?case
    using step_private_frame [OF s n(1)] Cons.IH [OF r n(2)] by simp
qed

lemma start_private_mode_well_formed:
  "well_formed fc \<Longrightarrow> well_formed (start_private_mode now fc)"
  by (simp add: well_formed_def start_private_mode_def)

lemma update_mode_never_stops:
  "mode \<noteq> ''Private'' \<Longrightarrow> update_mode now mode ui = Inr (mode, snd ui)"
  by (simp add: update_mode_def Let_def)

text \<open>
  C7. Leaving Private mode is to end the private leg as an alighting does, and the
  record of the leg is to carry the maximum speed observed over the trip. The code
  misses both. \<^verbatim>\<open>update_mode\<close> overwrites \<^verbatim>\<open>current_mode\<close> before it asks whether the
  mode left was Private, so its branch that stops private mode is never taken: after
  entering Private at 0 s and switching to For Hire at 60 s the private leg is still
  active and the fare engine is as it was. And the field \<open>max_speed\<close> of the record is
  the speed at the moment of the stop, floored at 0: the trip saw 40 km/h and then
  10 km/h, and an explicit stop at 60 s reports 10.
\<close>

theorem leaving_private_mode_and_max_speed:
  "(let fc0 = fare_calculator_init gps_init 12 0;
        u1 = update_mode 0 ''Private'' (''For Hire'', fc0);
        r = run [Speed_fix 40, Tick 30, Speed_fix 10, Tick 60] (snd (projr u1));
        u2 = update_mode 60 ''For Hire'' (fst (projr u1), projr r);
        s = stop_private_mode 60 (projr r)
    in \<not> isl u1 \<and> fst (projr u1) = ''Private'' \<and> private_mode_active (snd (projr u1)) \<and>
       \<not> isl r \<and>
       u2 = Inr (''For Hire'', projr r) \<and> private_mode_active (snd (projr u2)) \<and>
       \<not> isl s \<and>
       map_option p_max_speed (fst (projr s)) = Some 10 \<and>
       Max {40, 10} = (40 :: real))"
  by (simp add: Let_def update_mode_def fare_calculator_init_def gps_init_def
      passenger_init_def start_private_mode_def reset_trip_def speed_fix_def
      get_location_def get_speed_def calculation_loop_iter_def update_private_fare_def
      fare_calculate_distance_def calculate_distance_same minimum_speed_threshold_def
      stop_private_mode_def private_ride_data_of_def py_round_def)

text \<open>
  What the fare engine itself does at the two ends of a private leg, for use with C7.
  Starting private mode zeroes fare, distance and waiting time of the
  private leg, captures the current location as start and last location and the clock
  as start time, and resets the trip counter of the geo engine. After any run without
  another start or stop, stopping returns normally, clears the active flag and leaves
  everything else as it was, and returns a record that carries the start and end of
  the trip, the fare rounded to 2 decimals, the engine's own filtered distance and,
  beside it, the total distance of the geo engine, both rounded to 3 decimals.
\<close>

theorem private_mode_start_then_stop:
  assumes "well_formed fc" "switch_events as" "no_private_events as"
  shows "(let fc1 = start_private_mode t0 fc
          in private_mode_active fc1 \<and> private_fare fc1 = 0 \<and> private_distance fc1 = 0 \<and>
             private_waiting_time fc1 = 0 \<and>
             private_start_location fc1 = Some (current_location (gps fc)) \<and>
             private_last_location fc1 = Some (current_location (gps fc)) \<and>
             private_start_time fc1 = Some t0 \<and>
             total_distance_traveled (gps fc1) = 0 \<and>
             trip_start_time (gps fc1) = Some t0 \<and>
             previous_location (gps fc1) = None \<and>
             (\<exists>fc2 rd.
                run as fc1 = Inr fc2 \<and>
                stop_private_mode t1 fc2 = Inr (Some rd, fc2\<lparr>private_mode_active := False\<rparr>) \<and>
                p_start_time rd = t0 \<and> p_end_time rd = t1 \<and>
                p_duration_minutes rd = py_round ((t1 - t0) / 60) 1 \<and>
                p_start_location rd = Some (current_location (gps fc)) \<and>
                p_end_location rd = Some (current_location (gps fc2)) \<and>
                p_fare_amount rd = py_round (private_fare fc2) 2 \<and>
                p_waiting_time_minutes rd = py_round (private_waiting_time fc2) 1 \<and>
                p_calculated_distance_km rd = py_round (private_distance fc2) 3 \<and>
                p_gps_total_distance_km rd = py_round (total_distance_traveled (gps fc2)) 3))"
proof -
  let ?fc1 = "start_private_mode t0 fc"
  have wf1: "well_formed ?fc1"
    using assms(1) by (rule start_private_mode_well_formed)
  obtain fc2 where r: "run as ?fc1 = Inr fc2"
    using run_well_formed [OF wf1 assms(2)] by blast
  have k: "private_mode_active fc2" "private_start_time fc2 = Some t0"
    "private_start_location fc2 = Some (current_location (gps fc))"
    using run_private_frame [OF r assms(3)]
    by (simp_all add: start_private_mode_def get_location_def)
  let ?rd = "private_ride_data_of t0 t1 (fc2\<lparr>private_mode_active := False\<rparr>)"
  have s: "stop_private_mode t1 fc2 = Inr (Some ?rd, fc2\<lparr>private_mode_active := False\<rparr>)"
    by (rule stop_private_mode_active [OF k(1,2)])
  have rd: "p_start_time ?rd = t0" "p_end_time ?rd = t1"
    "p_duration_minutes ?rd = py_round ((t1 - t0) / 60) 1"
    "p_start_location ?rd = Some (current_location (gps fc))"
    "p_end_location ?rd = Some (current_location (gps fc2))"
    "p_fare_amount ?rd = py_round (private_fare fc2) 2"
    "p_waiting_time_minutes ?rd = py_round (private_waiting_time fc2) 1"
    "p_calculated_distance_km ?rd = py_round (private_distance fc2) 3"
    "p_gps_total_distance_km ?rd = py_round (total_distance_traveled (gps fc2)) 3"
    using k(3)
    by (simp_all add: private_ride_data_of_def Let_def get_location_def get_total_distance_def)
  have st: "private_mode_active ?fc1" "private_fare ?fc1 = 0" "private_distance ?fc1 = 0"
    "private_waiting_time ?fc1 = 0"
    "private_start_location ?fc1 = Some (current_location (gps fc))"
    "private_last_location ?fc1 = Some (current_location (gps fc))"
    "private_start_time ?fc1 = Some t0"
    "total_distance_traveled (gps ?fc1) = 0"
    "trip_start_time (gps ?fc1) = Some t0"
    "previous_location (gps ?fc1) = None"
    by (simp_all add: start_private_mode_def get_location_def reset_trip_def)
  show ?thesis
    unfolding Let_def using st r s rd by blast
qed

theorem private_mode_start_then_stop_witness:
  "(let fc = fare_calculator_init gps_init 12 0;
        as = [Location_fix 19.0800 72.8777, Speed_fix 15, Tick 30,
              Location_fix 19.0840 72.8777]
    in well_formed fc \<and> switch_events as \<and> no_private_events as \<and>
       (\<exists>fc2 rd.
          run as (start_private_mode 0 fc) = Inr fc2 \<and>
          stop_private_mode 60 fc2 = Inr (Some rd, fc2\<lparr>private_mode_active := False\<rparr>) \<and>
          p_start_time rd = 0 \<and> p_end_time rd = 60 \<and> p_duration_minutes rd = 1 \<and>
          p_calculated_distance_km rd =
            py_round (calculate_distance 19.0760 72.8777 19.0800 72.8777) 3 \<and>
          p_gps_total_distance_km rd =
            py_round (calculate_distance 19.0760 72.8777 19.0840 72.8777) 3))"
proof -
  let ?fc = "fare_calculator_init gps_init 12 0"
  let ?as = "[Location_fix 19.0800 72.8777, Speed_fix 15, Tick 30,
              Location_fix 19.0840 72.8777]"
  have wf: "well_formed ?fc"
    by (simp add: well_formed_def fare_calculator_init_def passenger_init_def)
  have sw: "switch_events ?as" and np: "no_private_events ?as"
    by simp_all
  from private_mode_start_then_stop [OF wf sw np, of 0 60]
  obtain fc2 rd where r: "run ?as (start_private_mode 0 ?fc) = Inr fc2"
    and s: "stop_private_mode 60 fc2 = Inr (Some rd, fc2\<lparr>private_mode_active := False\<rparr>)"
    and rd: "p_start_time rd = 0" "p_end_time rd = 60"
      "p_duration_minutes rd = py_round ((60 - 0) / 60) 1"
      "p_calculated_distance_km rd = py_round (private_distance fc2) 3"
      "p_gps_total_distance_km rd = py_round (total_distance_traveled (gps fc2)) 3"
    unfolding Let_def by blast
  have m: "0.005 < calculate_distance 19.0760 72.8777 19.0800 72.8777"
    using meridian_step_above_floor by blast
  have fc2: "fc2 = projr (run ?as (start_private_mode 0 ?fc))"
    using r by simp
  have v: "private_distance fc2 = calculate_distance 19.0760 72.8777 19.0800 72.8777 \<and>
      total_distance_traveled (gps fc2) = calculate_distance 19.0760 72.8777 19.0840 72.8777"
    unfolding fc2 using m
    by (simp add: fare_calculator_init_def gps_init_def passenger_init_def
        start_private_mode_def reset_trip_def speed_fix_def location_fix_def
        get_location_def get_speed_def Let_def calculation_loop_iter_def
        update_private_fare_def fare_calculate_distance_def minimum_speed_threshold_def)
  have d: "py_round ((60 - 0) / 60) 1 = 1"
    by (simp add: py_round_def)
  show ?thesis
    unfolding Let_def using wf sw np r s rd v d by auto
qed

section \<open>Facts about the mode selector\<close>

lemma selected_mode_cases:
  "selected_mode inp =
     Inr (if inp 7 = LOW then ''Private''
          else if inp 8 = LOW then ''Sharing''
          else if inp 18 = LOW then ''Waiting''
          else ''For Hire'')"
  by (simp add: selected_mode_def MODES_def PINS_def)

text \<open>
  C5. The mode one pass of the selector monitor resolves depends on nothing but the
  levels of the four selector pins (7 Private, 8 Sharing, 18 Waiting, 23 For Hire).
  With no line asserted it is For Hire; otherwise it is the mode of the first asserted
  line in the order Private, Sharing, Waiting, For Hire, whatever the later lines
  read. The monitor and the mode controller both end up in that mode.
\<close>

theorem selected_mode_priority:
  "(inp 7 \<noteq> LOW \<and> inp 8 \<noteq> LOW \<and> inp 18 \<noteq> LOW \<and> inp 23 \<noteq> LOW \<longrightarrow>
      selected_mode inp = Inr ''For Hire'') \<and>
   (inp 7 = LOW \<longrightarrow> selected_mode inp = Inr ''Private'') \<and>
   (inp 7 \<noteq> LOW \<and> inp 8 = LOW \<longrightarrow> selected_mode inp = Inr ''Sharing'') \<and>
   (inp 7 \<noteq> LOW \<and> inp 8 \<noteq> LOW \<and> inp 18 = LOW \<longrightarrow> selected_mode inp = Inr ''Waiting'') \<and>
   (inp 7 \<noteq> LOW \<and> inp 8 \<noteq> LOW \<and> inp 18 \<noteq> LOW \<and> inp 23 = LOW \<longrightarrow>
      selected_mode inp = Inr ''For Hire'') \<and>
   (inp 7 = inp' 7 \<and> inp 8 = inp' 8 \<and> inp 18 = inp' 18 \<and> inp 23 = inp' 23 \<longrightarrow>
      selected_mode inp = selected_mode inp') \<and>
   (\<exists>m. selected_mode inp = Inr m \<and>
        gpio_current_mode (monitor_mode_switch_iter inp g) = m \<and>
        mc_current_mode (handle_mode_change m mc) = m)"
proof -
  have "\<exists>m. selected_mode inp = Inr m \<and>
        gpio_current_mode (monitor_mode_switch_iter inp g) = m \<and>
        mc_current_mode (handle_mode_change m mc) = m"
    by (simp add: selected_mode_cases monitor_mode_switch_iter_def handle_mode_change_def
        mode_names_def)
  then show ?thesis
    by (simp add: selected_mode_cases)
qed

theorem selected_mode_priority_witness:
  "(let none = (\<lambda>pin. HIGH); one = (\<lambda>pin. if pin = 18 then LOW else HIGH);
        two = (\<lambda>pin. if pin = 8 \<or> pin = 18 then LOW else HIGH)
    in none 7 \<noteq> LOW \<and> none 8 \<noteq> LOW \<and> none 18 \<noteq> LOW \<and> none 23 \<noteq> LOW \<and>
       selected_mode none = Inr ''For Hire'' \<and>
       one 7 \<noteq> LOW \<and> one 8 \<noteq> LOW \<and> one 18 = LOW \<and>
       selected_mode one = Inr ''Waiting'' \<and>
       two 7 \<noteq> LOW \<and> two 8 = LOW \<and> two 18 = LOW \<and>
       selected_mode two = Inr ''Sharing'' \<and>
       gpio_current_mode (monitor_mode_switch_iter two gpio_init) = ''Sharing'' \<and>
       mc_current_mode (handle_mode_change ''Sharing'' mode_controller_init) = ''Sharing'')"
proof -
  let ?none = "\<lambda>pin :: int. HIGH"
  let ?one = "\<lambda>pin :: int. if pin = 18 then LOW else HIGH"
  let ?two = "\<lambda>pin :: int. if pin = 8 \<or> pin = 18 then LOW else HIGH"
  have n: "?none 7 \<noteq> LOW \<and> ?none 8 \<noteq> LOW \<and> ?none 18 \<noteq> LOW \<and> ?none 23 \<noteq> LOW"
    by (simp add: HIGH_def LOW_def)
  have o: "?one 7 \<noteq> LOW \<and> ?one 8 \<noteq> LOW \<and> ?one 18 = LOW"
    by (simp add: HIGH_def LOW_def)
  have t: "?two 7 \<noteq> LOW \<and> ?two 8 = LOW"
    by (simp add: HIGH_def LOW_def)
  have t18: "?two 18 = LOW"
    by simp
  have a: "selected_mode ?none = Inr ''For Hire''"
    using selected_mode_priority [of ?none] n by blast
  have b: "selected_mode ?one = Inr ''Waiting''"
    using selected_mode_priority [of ?one] o by blast
  have c: "selected_mode ?two = Inr ''Sharing''"
    using selected_mode_priority [of ?two] t by blast
  obtain m where m: "selected_mode ?two = Inr m"
    "gpio_current_mode (monitor_mode_switch_iter ?two gpio_init) = m"
    "mc_current_mode (handle_mode_change m mode_controller_init) = m"
    using selected_mode_priority [of ?two ?two gpio_init mode_controller_init] by blast
  have "m = ''Sharing''"
    using m(1) c by simp
  with m have d: "gpio_current_mode (monitor_mode_switch_iter ?two gpio_init) = ''Sharing''"
    "mc_current_mode (handle_mode_change ''Sharing'' mode_controller_init) = ''Sharing''"
    by simp_all
  show ?thesis
    unfolding Let_def using n o t t18 a b c d by blast
qed

section \<open>Facts about the SOS state machine\<close>

text \<open>
  C9. Deactivating while the SOS is not active returns the state as it was, with no
  signal emitted, and deactivating twice gives the state that deactivating once
  gives; from the active state the first call clears the flag and emits the
  deactivation signal, the second does nothing.
\<close>

theorem deactivate_sos_idempotent:
  "(\<not> sos_active s \<longrightarrow> deactivate_sos s = s) \<and>
   deactivate_sos (deactivate_sos s) = deactivate_sos s \<and>
   (sos_active s \<longrightarrow>
      \<not> sos_active (deactivate_sos s) \<and>
      sos_emitted (deactivate_sos s) =
        sos_emitted s @ [Sos_status_changed Deactivated_status, Sos_deactivated] \<and>
      sos_emitted (deactivate_sos (deactivate_sos s)) = sos_emitted (deactivate_sos s))"
  by (simp add: deactivate_sos_def)

theorem deactivate_sos_idempotent_witness:
  "(let normal = sos_init; active = activate_sos 7 sos_init
    in \<not> sos_active normal \<and> deactivate_sos normal = normal \<and>
       sos_active active \<and>
       \<not> sos_active (deactivate_sos active) \<and>
       deactivate_sos (deactivate_sos active) = deactivate_sos active \<and>
       sos_emitted (deactivate_sos (deactivate_sos active)) =
         sos_emitted active @ [Sos_status_changed Deactivated_status, Sos_deactivated])"
proof -
  have n: "\<not> sos_active sos_init"
    by (simp add: sos_init_def)
  have a: "sos_active (activate_sos 7 sos_init)"
    by (simp add: activate_sos_def)
  show ?thesis
    unfolding Let_def
    using deactivate_sos_idempotent [of sos_init]
      deactivate_sos_idempotent [of "activate_sos 7 sos_init"] n a
    by simp
qed


lemma active_stays:
  "held es \<Longrightarrow> sos_active s \<Longrightarrow> countdown_threads s = [] \<Longrightarrow> sos_run es s = s"
proof (induction es arbitrary: s)
  case Nil
  show ?case by simp
next
  case (Cons e es)
  then have "held es" and "sos_step e s = s"
    by (cases e; simp add: handle_sos_button_press_def)+
  with Cons show ?case by simp
qed

lemma counting_step:
  assumes "countdown_threads s = [i # rest]" "countdown_active s" "\<not> sos_active s"
  shows "countdown_threads (sos_step (Countdown_step 0 now) s) = [rest] \<and>
         countdown_active (sos_step (Countdown_step 0 now) s) \<and>
         \<not> sos_active (sos_step (Countdown_step 0 now) s) \<and>
         sos_emitted (sos_step (Countdown_step 0 now) s) =
           sos_emitted s @ [Sos_status_changed (Countdown_status i)]"
  using assms by simp

lemma counting_last_step:
  assumes "countdown_threads s = [[]]" "countdown_active s" "\<not> sos_active s"
  shows "countdown_threads (sos_step (Countdown_step 0 now) s) = [] \<and>
         \<not> countdown_active (sos_step (Countdown_step 0 now) s) \<and>
         sos_active (sos_step (Countdown_step 0 now) s)"
  using assms by (simp add: activate_sos_def)

lemma counting_other:
  assumes "countdown_threads s = [pc]" "countdown_active s"
    and "e = Button_press \<or> (\<exists>k now. e = Countdown_step (Suc k) now)"
  shows "sos_step e s = s"
  using assms by (auto simp add: handle_sos_button_press_def)

lemma held_cases:
  assumes "held (e # es)"
  obtains (press) "e = Button_press" "held es"
    | (first) now where "e = Countdown_step 0 now" "held es"
    | (other) k now where "e = Countdown_step (Suc k) now" "held es"
proof (cases e)
  case Button_press
  with assms press show ?thesis by simp
next
  case (Countdown_step k now)
  with assms first other show ?thesis by (cases k) simp_all
qed (use assms in simp_all)

lemma held_run_activates:
  assumes "held es" "countdown_threads s = [pc]" "countdown_active s" "\<not> sos_active s"
    and "length pc < thread_steps es"
  shows "sos_active (sos_run es s) \<and> \<not> countdown_active (sos_run es s) \<and>
         countdown_threads (sos_run es s) = []"
  using assms
proof (induction es arbitrary: s pc)
  case Nil
  then show ?case by simp
next
  case (Cons e es)
  from Cons.prems(1) show ?case
  proof (cases rule: held_cases)
    case press
    then have "sos_step e s = s"
      using counting_other [OF Cons.prems(2,3)] by blast
    with press Cons show ?thesis by simp
  next
    case (other k now)
    then have "sos_step e s = s"
      using counting_other [OF Cons.prems(2,3)] by blast
    with other Cons show ?thesis by simp
  next
    case (first now)
    show ?thesis
    proof (cases pc)
      case Nil
      then have l: "countdown_threads (sos_step e s) = [] \<and> \<not> countdown_active (sos_step e s) \<and>
          sos_active (sos_step e s)"
        using counting_last_step [of s now] Cons.prems(2,3,4) first by simp
      then have "sos_run es (sos_step e s) = sos_step e s"
        using active_stays [OF first(2)] by blast
      with l show ?thesis by simp
    next
      case (Cons i rest)
      then have c: "countdown_threads (sos_step e s) = [rest]"
        "countdown_active (sos_step e s)" "\<not> sos_active (sos_step e s)"
        using counting_step [of s i rest now] Cons.prems(2,3,4) first by simp_all
      have "length rest < thread_steps es"
        using Cons.prems(5) Cons first by simp
      from Cons.IH [OF first(2) c this] show ?thesis by simp
    qed
  qed
qed



lemma cancelled_thread_returns:
  assumes "countdown_threads s = [pc]" "\<not> countdown_active s"
  shows "countdown_threads (sos_step (Countdown_step 0 now) s) = []"
  using assms by (cases pc) simp_all

subsection \<open>Holding with earlier countdown threads alive\<close>


lemma list_all_remove:
  "list_all P xs \<Longrightarrow> list_all P (take k xs @ drop (Suc k) xs)"
  by (auto simp add: list_all_iff dest: in_set_takeD in_set_dropD)

lemma list_all_update:
  "list_all P xs \<Longrightarrow> P x \<Longrightarrow> list_all P (xs[k := x])"
  by (auto simp add: list_all_iff dest: set_update_subset_insert [THEN subsetD])

lemma sos_step_well_formed:
  assumes "sos_well_formed s"
  shows "sos_well_formed (sos_step e s)"
proof (cases e)
  case Button_press
  with assms show ?thesis
    by (simp add: sos_well_formed_def handle_sos_button_press_def)
next
  case Button_release
  with assms show ?thesis
    by (simp add: sos_well_formed_def handle_sos_button_release_def deactivate_sos_def)
next
  case External_deactivate
  with assms show ?thesis
    by (simp add: sos_well_formed_def deactivate_sos_def)
next
  case (Countdown_step k now)
  show ?thesis
  proof (cases "k < length (countdown_threads s)")
    case False
    with assms Countdown_step show ?thesis by simp
  next
    case True
    have all: "list_all (\<lambda>pc. length pc \<le> 5) (countdown_threads s)"
      using assms by (simp add: sos_well_formed_def)
    show ?thesis
    proof (cases "countdown_threads s ! k")
      case Nil
      with True Countdown_step list_all_remove [OF all, of k] show ?thesis
        by (simp add: sos_well_formed_def activate_sos_def)
    next
      case (Cons i rest)
      have "length (countdown_threads s ! k) \<le> 5"
        using all True by (simp add: list_all_length)
      then have "length rest \<le> 5"
        using Cons by simp
      with True Countdown_step Cons list_all_remove [OF all, of k]
        list_all_update [OF all, of rest k]
      show ?thesis
        by (simp add: sos_well_formed_def)
    qed
  qed
qed




section \<open>Facts about the emergency-button monitor and the alarm pattern\<close>













end
